theory Spec2Isabelle
  imports Complex_Main
begin

section \<open>Python values used by the resume pipeline\<close>

text \<open>
  A Python \<open>str\<close> is a \<^typ>\<open>string\<close>: the list of the bytes of its UTF-8 encoding.
  Prefix, substring, split and join on code points agree with the same operations on
  the UTF-8 bytes. Case mapping, the character classes of \<open>re\<close> and \<open>str.strip\<close> are
  modelled on ASCII: a byte above 0x7F is neither a letter, a digit nor white space.
  A Python \<open>float\<close> is a \<^typ>\<open>rat\<close>: arithmetic is exact, the rounding of binary64
  after each operation is not modelled. A Python \<open>int\<close> is an \<^typ>\<open>int\<close>.
  An exception is a value \<open>Inl e\<close> of the result type.
\<close>

datatype py_error =
    KeyError string
  | IndexError
  | ValueError string
  | LibraryError string
  | DanglingRef

definition bind_e :: "'e + 'a \<Rightarrow> ('a \<Rightarrow> 'e + 'b) \<Rightarrow> 'e + 'b" where
  "bind_e m f = (case m of Inl e \<Rightarrow> Inl e | Inr x \<Rightarrow> f x)"

abbreviation nl :: char where
  "nl \<equiv> CHR 0x0A"

abbreviation bullet :: string where
  "bullet \<equiv> [CHR 0xE2, CHR 0x80, CHR 0xA2]"

definition upper_letters :: string where
  "upper_letters = ''ABCDEFGHIJKLMNOPQRSTUVWXYZ''"

definition lower_letters :: string where
  "lower_letters = ''abcdefghijklmnopqrstuvwxyz''"

definition digit_chars :: string where
  "digit_chars = ''0123456789''"

definition space_chars :: string where
  "space_chars = [CHR 0x09, CHR 0x0A, CHR 0x0B, CHR 0x0C, CHR 0x0D,
                  CHR 0x1C, CHR 0x1D, CHR 0x1E, CHR 0x1F, CHR 0x20]"

definition chr_lower :: "char \<Rightarrow> char" where
  "chr_lower c = (case map_of (zip upper_letters lower_letters) c of None \<Rightarrow> c | Some d \<Rightarrow> d)"

definition chr_isupper :: "char \<Rightarrow> bool" where
  "chr_isupper c = (c \<in> set upper_letters)"

definition chr_islower :: "char \<Rightarrow> bool" where
  "chr_islower c = (c \<in> set lower_letters)"

definition chr_isspace :: "char \<Rightarrow> bool" where
  "chr_isspace c = (c \<in> set space_chars)"

text \<open>\<open>s.lower()\<close>\<close>

definition py_lower :: "string \<Rightarrow> string" where
  "py_lower s = map chr_lower s"

text \<open>\<open>s.isupper()\<close>: some cased character, and no lower-case one.\<close>

definition py_isupper :: "string \<Rightarrow> bool" where
  "py_isupper s = (list_ex chr_isupper s \<and> \<not> list_ex chr_islower s)"

text \<open>\<open>s.strip()\<close>\<close>

definition py_strip :: "string \<Rightarrow> string" where
  "py_strip s = rev (dropWhile chr_isspace (rev (dropWhile chr_isspace s)))"

text \<open>\<open>s.startswith(p)\<close>\<close>

fun startswith :: "string \<Rightarrow> string \<Rightarrow> bool" where
  "startswith s [] = True"
| "startswith [] (p # ps) = False"
| "startswith (c # cs) (p # ps) = (c = p \<and> startswith cs ps)"

text \<open>\<open>sub in s\<close>\<close>

fun py_in :: "string \<Rightarrow> string \<Rightarrow> bool" where
  "py_in sub [] = (sub = [])"
| "py_in sub (c # cs) = (startswith (c # cs) sub \<or> py_in sub cs)"

text \<open>\<open>s.split(sep)\<close> for a separator of one character: never the empty list.\<close>

fun split_on :: "char \<Rightarrow> string \<Rightarrow> string list" where
  "split_on sep [] = [[]]"
| "split_on sep (c # cs) =
     (if c = sep then [] # split_on sep cs
      else (case split_on sep cs of [] \<Rightarrow> [[c]] | w # ws \<Rightarrow> (c # w) # ws))"

text \<open>\<open>s.split(sep, 1)[-1]\<close>: the text after the first separator, the whole text without one.\<close>

fun after_first :: "char \<Rightarrow> string \<Rightarrow> string" where
  "after_first sep s = (case dropWhile (\<lambda>c. c \<noteq> sep) s of [] \<Rightarrow> s | _ # r \<Rightarrow> r)"

text \<open>\<open>s.split()\<close>: the maximal runs of characters that are not white space.\<close>

fun split_ws_acc :: "string \<Rightarrow> string \<Rightarrow> string list" where
  "split_ws_acc w [] = (if w = [] then [] else [rev w])"
| "split_ws_acc w (c # cs) =
     (if chr_isspace c then (if w = [] then split_ws_acc [] cs else rev w # split_ws_acc [] cs)
      else split_ws_acc (c # w) cs)"

definition split_ws :: "string \<Rightarrow> string list" where
  "split_ws s = split_ws_acc [] s"

text \<open>\<open>sep.join(xs)\<close>\<close>

fun join :: "string \<Rightarrow> string list \<Rightarrow> string" where
  "join sep [] = []"
| "join sep [x] = x"
| "join sep (x # y # ys) = x @ sep @ join sep (y # ys)"

text \<open>\<open>[line.strip() for line in text.split('\n') if line.strip()]\<close>\<close>

definition stripped_lines :: "string \<Rightarrow> string list" where
  "stripped_lines text = map py_strip (filter (\<lambda>line. py_strip line \<noteq> []) (split_on nl text))"

text \<open>A \<open>dict\<close> with string keys and string values, in insertion order.\<close>

type_synonym dict = "(string \<times> string) list"

text \<open>\<open>d.get(k)\<close> used as a condition: the key is there and its value is not empty.\<close>

definition get_truthy :: "dict \<Rightarrow> string \<Rightarrow> bool" where
  "get_truthy d k = (case map_of d k of None \<Rightarrow> False | Some v \<Rightarrow> v \<noteq> [])"

text \<open>\<open>[str(v) for v in d.values() if v]\<close>\<close>

definition truthy_values :: "dict \<Rightarrow> string list" where
  "truthy_values d = filter (\<lambda>v. v \<noteq> []) (map snd d)"

section \<open>The regular expressions of the \<open>re\<close> calls\<close>

text \<open>
  A backtracking matcher for the fragment of \<open>re\<close> that the repository uses: literals,
  character classes, greedy repetition of a class, sequence, alternation, option, the
  word boundary and capturing groups, of which group 1 is kept. A match state is the
  text before the position (reversed), the text from the position on, and the text of
  group 1. \<open>rx_step\<close> lists the states after a match in the order in which \<open>re\<close>
  tries them, so the head of the list is the match that \<open>re\<close> reports.
\<close>

datatype cls = Any_of string | None_of string

datatype rx =
    Str string
  | Cls cls
  | Rep cls nat "nat option"
  | Seq rx rx
  | Alt rx rx
  | Opt rx
  | WordB
  | Grp rx

type_synonym mstate = "string \<times> string \<times> string option"

definition chr_eq :: "bool \<Rightarrow> char \<Rightarrow> char \<Rightarrow> bool" where
  "chr_eq ic a b = (a = b \<or> (ic \<and> chr_lower a = chr_lower b))"

fun cls_mem :: "bool \<Rightarrow> cls \<Rightarrow> char \<Rightarrow> bool" where
  "cls_mem ic (Any_of m) c = list_ex (chr_eq ic c) m"
| "cls_mem ic (None_of m) c = (\<not> list_ex (chr_eq ic c) m)"

fun str_prefix :: "bool \<Rightarrow> string \<Rightarrow> string \<Rightarrow> bool" where
  "str_prefix ic [] r = True"
| "str_prefix ic (a # as) [] = False"
| "str_prefix ic (a # as) (b # bs) = (chr_eq ic a b \<and> str_prefix ic as bs)"

definition is_word :: "char \<Rightarrow> bool" where
  "is_word c = (c \<in> set (upper_letters @ lower_letters @ digit_chars @ ''_''))"

definition word_at :: "string \<Rightarrow> bool" where
  "word_at s = (case s of [] \<Rightarrow> False | c # _ \<Rightarrow> is_word c)"

fun advance :: "nat \<Rightarrow> mstate \<Rightarrow> mstate" where
  "advance n (seen, rest, g) = (rev (take n rest) @ seen, drop n rest, g)"

fun capture :: "mstate \<Rightarrow> mstate \<Rightarrow> mstate" where
  "capture (seen, rest, g) (seen', rest', g') =
     (seen', rest',
      case g of None \<Rightarrow> Some (take (length rest - length rest') rest) | Some x \<Rightarrow> Some x)"

fun rx_step :: "bool \<Rightarrow> rx \<Rightarrow> mstate \<Rightarrow> mstate list" where
  "rx_step ic (Str s) st =
     (if str_prefix ic s (fst (snd st)) then [advance (length s) st] else [])"
| "rx_step ic (Cls k) st =
     (case fst (snd st) of [] \<Rightarrow> [] | c # _ \<Rightarrow> if cls_mem ic k c then [advance 1 st] else [])"
| "rx_step ic (Rep k lo hi) st =
     (let run = length (takeWhile (cls_mem ic k) (fst (snd st)));
          most = (case hi of None \<Rightarrow> run | Some h \<Rightarrow> min run h)
      in map (\<lambda>n. advance n st) (rev [lo ..< Suc most]))"
| "rx_step ic (Seq a b) st = concat (map (rx_step ic b) (rx_step ic a st))"
| "rx_step ic (Alt a b) st = rx_step ic a st @ rx_step ic b st"
| "rx_step ic (Opt a) st = rx_step ic a st @ [st]"
| "rx_step ic WordB st = (if word_at (fst st) \<noteq> word_at (fst (snd st)) then [st] else [])"
| "rx_step ic (Grp a) st = map (capture st) (rx_step ic a st)"

fun seqs :: "rx list \<Rightarrow> rx" where
  "seqs [] = Str []"
| "seqs [r] = r"
| "seqs (r # rs) = Seq r (seqs rs)"

fun alts :: "rx list \<Rightarrow> rx" where
  "alts [] = Cls (Any_of [])"
| "alts [r] = r"
| "alts (r # rs) = Alt r (alts rs)"

fun has_group :: "rx \<Rightarrow> bool" where
  "has_group (Grp a) = True"
| "has_group (Seq a b) = (has_group a \<or> has_group b)"
| "has_group (Alt a b) = (has_group a \<or> has_group b)"
| "has_group (Opt a) = has_group a"
| "has_group _ = False"

text \<open>The match that starts at one position: its text and its group 1.\<close>

definition match_at :: "bool \<Rightarrow> rx \<Rightarrow> string \<Rightarrow> string \<Rightarrow> (string \<times> string option) option" where
  "match_at ic r seen rest =
     (case rx_step ic r (seen, rest, None) of
        [] \<Rightarrow> None
      | (seen', rest', g) # _ \<Rightarrow> Some (take (length rest - length rest') rest, g))"

text \<open>\<open>re.search\<close>: the match at the leftmost position that has one.\<close>

fun search_from :: "bool \<Rightarrow> rx \<Rightarrow> string \<Rightarrow> string \<Rightarrow> (string \<times> string option) option" where
  "search_from ic r seen [] = match_at ic r seen []"
| "search_from ic r seen (c # cs) =
     (case match_at ic r seen (c # cs) of
        None \<Rightarrow> search_from ic r (c # seen) cs
      | Some m \<Rightarrow> Some m)"

definition re_search :: "bool \<Rightarrow> rx \<Rightarrow> string \<Rightarrow> string option" where
  "re_search ic r text = map_option fst (search_from ic r [] text)"

text \<open>
  \<open>re.findall\<close>: the matches from left to right, each search starting where the last
  match ended (\<open>skip\<close> counts the characters of the last match still to pass).
  With a capturing group in the pattern the result lists group 1, not the match.
\<close>

fun finditer_from :: "bool \<Rightarrow> rx \<Rightarrow> string \<Rightarrow> string \<Rightarrow> nat \<Rightarrow> (string \<times> string option) list" where
  "finditer_from ic r seen [] skip =
     (if skip = 0 then (case match_at ic r seen [] of None \<Rightarrow> [] | Some m \<Rightarrow> [m]) else [])"
| "finditer_from ic r seen (c # cs) skip =
     (if 0 < skip then finditer_from ic r (c # seen) cs (skip - 1)
      else (case match_at ic r seen (c # cs) of
              None \<Rightarrow> finditer_from ic r (c # seen) cs 0
            | Some m \<Rightarrow> m # finditer_from ic r (c # seen) cs (length (fst m) - 1)))"

definition re_findall :: "bool \<Rightarrow> rx \<Rightarrow> string \<Rightarrow> string list" where
  "re_findall ic r text =
     map (\<lambda>(whole, g). if has_group r then (case g of None \<Rightarrow> [] | Some x \<Rightarrow> x) else whole)
         (finditer_from ic r [] text 0)"

abbreviation digit :: cls where
  "digit \<equiv> Any_of digit_chars"

abbreviation space :: cls where
  "space \<equiv> Any_of space_chars"

abbreviation dot :: cls where
  "dot \<equiv> None_of [nl]"

section \<open>The ATS scorer\<close>

text \<open>
  The Resume Record is a \<open>dict\<close>; a field is \<open>None\<close> when its key is absent.
  \<open>skills\<close> is a \<open>dict\<close> or a \<open>str\<close>.
\<close>

datatype skills_val = SkillsDict dict | SkillsStr string

record resume_data =
  personal_info :: "dict option"
  summary :: "string option"
  education :: "dict list option"
  experience :: "dict list option"
  skills :: "skills_val option"
  projects :: "dict list option"
  raw_text :: "string option"

text \<open>\<open>resume_data.get(k, default)\<close>\<close>

definition get_default :: "'a \<Rightarrow> 'a option \<Rightarrow> 'a" where
  "get_default d x = (case x of None \<Rightarrow> d | Some v \<Rightarrow> v)"

text \<open>\<open>resume_data.get(k)\<close> as a condition, for a field that holds a string or a list.\<close>

definition truthy :: "'a list option \<Rightarrow> bool" where
  "truthy x = (case x of None \<Rightarrow> False | Some v \<Rightarrow> v \<noteq> [])"

definition truthy_skills :: "skills_val option \<Rightarrow> bool" where
  "truthy_skills x =
     (case x of None \<Rightarrow> False | Some (SkillsDict d) \<Rightarrow> d \<noteq> [] | Some (SkillsStr s) \<Rightarrow> s \<noteq> [])"

text \<open>\<open>resume_data[k]\<close>: raises \<open>KeyError\<close> when the key is absent.\<close>

definition subscript :: "string \<Rightarrow> 'a option \<Rightarrow> py_error + 'a" where
  "subscript k x = (case x of None \<Rightarrow> Inl (KeyError k) | Some v \<Rightarrow> Inr v)"

record scorer =
  technical_keywords :: "string list"
  action_verbs :: "string list"
  soft_skills :: "string list"

text \<open>\<open>ATSScorer.__init__\<close>\<close>

definition ATSScorer :: scorer where
  "ATSScorer = \<lparr>
     technical_keywords =
       [''python'', ''java'', ''javascript'', ''react'', ''angular'', ''vue'', ''node'',
        ''sql'', ''nosql'', ''mongodb'', ''postgresql'', ''mysql'', ''aws'', ''azure'',
        ''docker'', ''kubernetes'', ''git'', ''ci/cd'', ''agile'', ''scrum'', ''devops'',
        ''machine learning'', ''ai'', ''data science'', ''analytics'', ''api'', ''rest'',
        ''microservices'', ''cloud'', ''linux'', ''windows'', ''ios'', ''android''],
     action_verbs =
       [''achieved'', ''improved'', ''developed'', ''created'', ''designed'', ''built'',
        ''implemented'', ''managed'', ''led'', ''increased'', ''decreased'', ''reduced'',
        ''optimized'', ''enhanced'', ''streamlined'', ''automated'', ''delivered'',
        ''launched'', ''established'', ''collaborated'', ''coordinated'', ''facilitated''],
     soft_skills =
       [''leadership'', ''communication'', ''teamwork'', ''problem-solving'',
        ''analytical'', ''creative'', ''adaptable'', ''detail-oriented'',
        ''time management'', ''critical thinking'', ''collaboration'']\<rparr>"

text \<open>\<open>_get_all_text\<close>\<close>

definition get_all_text :: "resume_data \<Rightarrow> py_error + string" where
  "get_all_text r =
     (let personal = get_default [] (personal_info r);
          parts_personal = truthy_values personal
      in bind_e (if truthy (summary r)
                 then bind_e (subscript ''summary'' (summary r)) (\<lambda>s. Inr [s])
                 else Inr [])
         (\<lambda>parts_summary.
            let parts_education = concat (map truthy_values (get_default [] (education r)));
                parts_experience = concat (map truthy_values (get_default [] (experience r)));
                parts_skills =
                  (case get_default (SkillsDict []) (skills r) of
                     SkillsDict d \<Rightarrow> truthy_values d
                   | SkillsStr s \<Rightarrow> [s]);
                parts_projects = concat (map truthy_values (get_default [] (projects r)))
            in Inr (join '' '' (parts_personal @ parts_summary @ parts_education
                                 @ parts_experience @ parts_skills @ parts_projects))))"

text \<open>\<open>_score_format_structure\<close>\<close>

definition score_format_structure :: "resume_data \<Rightarrow> int" where
  "score_format_structure r =
     (let personal = get_default [] (personal_info r);
          score = 0;
          score = (if get_truthy personal ''name'' then score + 20 else score);
          score = (if get_truthy personal ''email'' then score + 20 else score);
          score = (if get_truthy personal ''phone'' then score + 20 else score);
          score = (if get_truthy personal ''linkedin'' \<or> get_truthy personal ''github''
                   then score + 20 else score);
          score = (if truthy (summary r) then score + 10 else score);
          score = (if truthy (education r) then score + 5 else score);
          score = (if truthy (experience r) then score + 5 else score)
      in min score 100)"

text \<open>\<open>sum(1 for keyword in keywords if keyword in all_text)\<close>\<close>

definition keyword_count :: "string list \<Rightarrow> string \<Rightarrow> nat" where
  "keyword_count keywords all_text = length (filter (\<lambda>keyword. py_in keyword all_text) keywords)"

text \<open>\<open>_score_keywords\<close>\<close>

definition score_keywords :: "scorer \<Rightarrow> resume_data \<Rightarrow> py_error + rat" where
  "score_keywords self r =
     bind_e (get_all_text r) (\<lambda>t.
       let all_text = py_lower t;
           tech_count = keyword_count (technical_keywords self) all_text;
           tech_score = min ((of_nat tech_count / 10) * 100) (100 :: rat);
           action_count = keyword_count (action_verbs self) all_text;
           action_score = min ((of_nat action_count / 8) * 100) (100 :: rat);
           soft_count = keyword_count (soft_skills self) all_text;
           soft_score = min ((of_nat soft_count / 5) * 100) (100 :: rat)
       in Inr (tech_score * (5 / 10) + action_score * (3 / 10) + soft_score * (2 / 10)))"

text \<open>\<open>_score_content_quality\<close>\<close>

definition score_content_quality :: "resume_data \<Rightarrow> int" where
  "score_content_quality r =
     (let score = 0;
          summary_text = get_default [] (summary r);
          score =
            (if summary_text \<noteq> [] then
               (let words = length (split_ws summary_text)
                in if 30 \<le> words \<and> words \<le> 100 then score + 25
                   else if 0 < words then score + 15 else score)
             else score);
          experiences = get_default [] (experience r);
          score =
            (if experiences \<noteq> [] then
               (let total_length =
                      sum_list (map (\<lambda>exp. length (split_ws
                                       (get_default [] (map_of exp ''responsibilities''))))
                                    experiences)
                in if 100 < total_length then score + 30
                   else if 50 < total_length then score + 20
                   else if 0 < total_length then score + 10 else score)
             else score);
          projs = get_default [] (projects r);
          score =
            (if projs \<noteq> [] \<and> list_ex (\<lambda>p. get_truthy p ''description'') projs
             then score + 25 else score);
          score =
            (case get_default (SkillsDict []) (skills r) of
               SkillsDict d \<Rightarrow>
                 if get_truthy d ''technical'' \<and> get_truthy d ''soft'' then score + 20
                 else if get_truthy d ''technical'' \<or> get_truthy d ''soft'' then score + 10
                 else score
             | SkillsStr s \<Rightarrow> score)
      in min score 100)"

text \<open>\<open>resume_data.get(k) and len(resume_data[k]) > 0\<close>\<close>

definition get_and_len :: "string \<Rightarrow> 'a list option \<Rightarrow> py_error + bool" where
  "get_and_len k x =
     (if truthy x then bind_e (subscript k x) (\<lambda>v. Inr (0 < length v)) else Inr False)"

text \<open>\<open>_score_completeness\<close>\<close>

definition score_completeness :: "resume_data \<Rightarrow> py_error + int" where
  "score_completeness r =
     (let score = 0;
          score = (if get_truthy (get_default [] (personal_info r)) ''name''
                   then score + 20 else score);
          score = (if truthy (summary r) then score + 15 else score)
      in bind_e (get_and_len ''education'' (education r)) (\<lambda>has_education.
           let score = (if has_education then score + 20 else score)
           in bind_e (get_and_len ''experience'' (experience r)) (\<lambda>has_experience.
                let score = (if has_experience then score + 25 else score);
                    score = (if truthy_skills (skills r) then score + 20 else score)
                in Inr (min score 100))))"

definition number_patterns :: "rx list" where
  "number_patterns =
     [Seq (Rep digit 1 None) (Str ''%''),
      Seq (Str ''$'') (Rep digit 1 None),
      Seq (Rep digit 1 None) (Str ''+'')]"

definition achievement_patterns :: "rx list" where
  "achievement_patterns =
     [seqs [Str ''increased'', Rep dot 0 None, Rep digit 1 None],
      seqs [Str ''decreased'', Rep dot 0 None, Rep digit 1 None],
      seqs [Str ''improved'', Rep dot 0 None, Rep digit 1 None],
      seqs [Str ''reduced'', Rep dot 0 None, Rep digit 1 None],
      seqs [Str ''saved'', Rep dot 0 None, Rep digit 1 None],
      seqs [Str ''generated'', Rep dot 0 None, Rep digit 1 None],
      seqs [Rep digit 1 None, Rep dot 0 None, Str ''users''],
      seqs [Rep digit 1 None, Rep dot 0 None, Str ''customers''],
      seqs [Rep digit 1 None, Rep dot 0 None, Str ''projects'']]"

text \<open>\<open>_score_quantifiable_results\<close>\<close>

definition score_quantifiable_results :: "resume_data \<Rightarrow> py_error + int" where
  "score_quantifiable_results r =
     bind_e (get_all_text r) (\<lambda>all_text.
       let numbers = concat (map (\<lambda>p. re_findall False p all_text) number_patterns);
           achievements =
             sum_list (map (\<lambda>p. length (re_findall False p (py_lower all_text)))
                           achievement_patterns);
           total_metrics = length numbers + achievements
       in Inr (if 10 \<le> total_metrics then 100
               else if 7 \<le> total_metrics then 85
               else if 5 \<le> total_metrics then 70
               else if 3 \<le> total_metrics then 50
               else if 1 \<le> total_metrics then 30
               else 0))"

text \<open>The \<open>scores\<close> dictionary of \<open>calculate_score\<close>, in the order of its keys.\<close>

record scores =
  format_structure :: int
  keyword_optimization :: rat
  content_quality :: int
  completeness :: int
  quantifiable_results :: int

text \<open>\<open>_generate_feedback\<close>\<close>

definition generate_feedback :: "scores \<Rightarrow> resume_data \<Rightarrow> string list" where
  "generate_feedback sc r =
     (let feedback = [];
          feedback =
            (if format_structure sc < 70 then feedback @
               [[CHR 0xC3, CHR 0xA2, CHR 0xC5, CHR 0xA1, CHR 0xC2, CHR 0xA0, CHR 0xC3, CHR 0xAF,
                 CHR 0xC2, CHR 0xB8]
                @ '' Consider adding more contact information (email, phone, LinkedIn)'']
             else feedback);
          feedback =
            (if keyword_optimization sc < 70 then feedback @
               [[CHR 0xC3, CHR 0xB0, CHR 0xC5, CHR 0xB8, CHR 0xE2, CHR 0x80, CHR 0x9C]
                @ '' Add more relevant technical keywords and action verbs to improve ATS visibility'',
                [CHR 0xC3, CHR 0xB0, CHR 0xC5, CHR 0xB8, CHR 0xE2, CHR 0x80, CHR 0x99, CHR 0xC2,
                 CHR 0xA1]
                @ '' Use strong action verbs like 'achieved', 'implemented', 'led', 'optimized''
                @ [CHR 0x27]]
             else feedback);
          feedback =
            (if content_quality sc < 70 then feedback @
               [[CHR 0xC3, CHR 0xA2, CHR 0xC5, CHR 0x93, CHR 0xC3, CHR 0xAF, CHR 0xC2, CHR 0xB8]
                @ '' Expand your experience descriptions with more details and context'',
                [CHR 0xC3, CHR 0xB0, CHR 0xC5, CHR 0xB8, CHR 0xC5, CHR 0xBD, CHR 0xC2, CHR 0xAF]
                @ '' Consider adding a professional summary (30-100 words)'']
             else feedback);
          feedback =
            (if completeness sc < 80 then
               (let missing_sections = [];
                    missing_sections =
                      (if \<not> truthy (summary r) then missing_sections @ [''Professional Summary'']
                       else missing_sections);
                    missing_sections =
                      (if \<not> truthy (projects r) then missing_sections @ [''Projects'']
                       else missing_sections)
                in if missing_sections \<noteq> [] then feedback @
                     [[CHR 0xC3, CHR 0xB0, CHR 0xC5, CHR 0xB8, CHR 0xE2, CHR 0x80, CHR 0x9C,
                       CHR 0xE2, CHR 0x80, CHR 0xB9]
                      @ '' Consider adding: '' @ join '', '' missing_sections]
                   else feedback)
             else feedback);
          feedback =
            (if quantifiable_results sc < 60 then feedback @
               [[CHR 0xC3, CHR 0xB0, CHR 0xC5, CHR 0xB8, CHR 0xE2, CHR 0x80, CHR 0x9C, CHR 0xC5,
                 CHR 0xA0]
                @ '' Add more quantifiable achievements (e.g., 'Increased efficiency by 30%', 'Managed team of 5')'',
                [CHR 0xC3, CHR 0xB0, CHR 0xC5, CHR 0xB8, CHR 0xE2, CHR 0x80, CHR 0x99, CHR 0xC2,
                 CHR 0xAF]
                @ '' Use numbers, percentages, and metrics to demonstrate impact'']
             else feedback);
          feedback =
            (if 70 \<le> format_structure sc \<and> 70 \<le> keyword_optimization sc
                \<and> 70 \<le> content_quality sc \<and> 70 \<le> completeness sc
                \<and> 70 \<le> quantifiable_results sc
             then feedback @
               [[CHR 0xC3, CHR 0xA2, CHR 0xC5, CHR 0x93, CHR 0xC2, CHR 0xA8]
                @ '' Great job! Your resume is well-structured and ATS-friendly'']
             else feedback);
          feedback =
            (if 80 \<le> quantifiable_results sc then feedback @
               [[CHR 0xC3, CHR 0xB0, CHR 0xC5, CHR 0xB8, CHR 0xC5, CHR 0xBD, CHR 0xE2, CHR 0x80,
                 CHR 0xB0]
                @ '' Excellent use of quantifiable achievements!'']
             else feedback)
      in if feedback \<noteq> [] then feedback
         else [[CHR 0xC3, CHR 0xA2, CHR 0xC5, CHR 0x93, CHR 0xE2, CHR 0x80, CHR 0xA6]
               @ '' Your resume looks great!''])"

text \<open>The built-in \<open>round\<close> on a float: the nearest integer, a tie going to the even one.\<close>

definition py_round :: "rat \<Rightarrow> int" where
  "py_round x =
     (let f = \<lfloor>x\<rfloor>; d = x - of_int f
      in if d < 1 / 2 then f
         else if 1 / 2 < d then f + 1
         else if even f then f else f + 1)"

text \<open>\<open>sum(scores[key] * weights[key] for key in scores)\<close>\<close>

definition total_score :: "scores \<Rightarrow> rat" where
  "total_score sc =
     0 + of_int (format_structure sc) * (20 / 100)
       + keyword_optimization sc * (25 / 100)
       + of_int (content_quality sc) * (20 / 100)
       + of_int (completeness sc) * (20 / 100)
       + of_int (quantifiable_results sc) * (15 / 100)"

text \<open>The five sub-scores, computed in the order of the dictionary literal.\<close>

definition sub_scores :: "scorer \<Rightarrow> resume_data \<Rightarrow> py_error + scores" where
  "sub_scores self r =
     (let fs = score_format_structure r
      in bind_e (score_keywords self r) (\<lambda>kw.
           let cq = score_content_quality r
           in bind_e (score_completeness r) (\<lambda>cp.
                bind_e (score_quantifiable_results r) (\<lambda>qr.
                  Inr \<lparr>format_structure = fs, keyword_optimization = kw,
                       content_quality = cq, completeness = cp,
                       quantifiable_results = qr\<rparr>))))"

text \<open>\<open>calculate_score\<close>\<close>

definition calculate_score :: "scorer \<Rightarrow> resume_data \<Rightarrow> py_error + (int \<times> string list)" where
  "calculate_score self r =
     bind_e (sub_scores self r) (\<lambda>sc.
       let feedback = generate_feedback sc r
       in Inr (py_round (total_score sc), feedback))"

subsection \<open>The scorer as a program on objects\<close>

text \<open>
  The methods once more, statement by statement, as programs on a store of objects.
  A list object has an address; \<open>list_at\<close> gives the contents of the list at an address
  and \<open>next_ref\<close> is the next free address. The scorer object \<open>self\<close> holds the
  addresses of its three keyword lists, so a write through an address reaches them as
  it reaches any other list. The Resume Record is read with \<open>get\<close> and subscripts.
  A program returns its value, or the exception it raises, and the store it leaves.
  Integers and strings are immutable: \<open>score += 20\<close> binds the name anew. The
  dictionaries \<open>scores\<close> and \<open>weights\<close> and the lists made by comprehensions are
  created and only read; they are values here.
\<close>

record scorer_obj =
  technical_keywords_at :: nat
  action_verbs_at :: nat
  soft_skills_at :: nat

record store =
  self_obj :: scorer_obj
  data_obj :: resume_data
  list_at :: "nat \<Rightarrow> string list option"
  next_ref :: nat

type_synonym 'a prog = "store \<Rightarrow> (py_error + 'a) \<times> store"

definition return_m :: "'a \<Rightarrow> 'a prog" where
  "return_m x st = (Inr x, st)"

definition bind_m :: "'a prog \<Rightarrow> ('a \<Rightarrow> 'b prog) \<Rightarrow> 'b prog" where
  "bind_m m f st = (case m st of (Inl e, st') \<Rightarrow> (Inl e, st') | (Inr x, st') \<Rightarrow> f x st')"

text \<open>An expression that may raise and touches no object.\<close>

definition lift_e :: "py_error + 'a \<Rightarrow> 'a prog" where
  "lift_e v st = (v, st)"

text \<open>\<open>[...]\<close>: a new list object.\<close>

definition new_list :: "string list \<Rightarrow> nat prog" where
  "new_list xs st =
     (Inr (next_ref st),
      st\<lparr>list_at := (list_at st)(next_ref st \<mapsto> xs), next_ref := Suc (next_ref st)\<rparr>)"

text \<open>The contents of a list object.\<close>

definition list_read :: "nat \<Rightarrow> string list prog" where
  "list_read r st =
     (case list_at st r of None \<Rightarrow> (Inl DanglingRef, st) | Some xs \<Rightarrow> (Inr xs, st))"

text \<open>\<open>xs.extend(ys)\<close> and \<open>xs += ys\<close>\<close>

definition list_extend :: "nat \<Rightarrow> string list \<Rightarrow> unit prog" where
  "list_extend r ys st =
     (case list_at st r of
        None \<Rightarrow> (Inl DanglingRef, st)
      | Some xs \<Rightarrow> (Inr (), st\<lparr>list_at := (list_at st)(r \<mapsto> xs @ ys)\<rparr>))"

text \<open>\<open>xs.append(y)\<close>\<close>

definition list_append :: "nat \<Rightarrow> string \<Rightarrow> unit prog" where
  "list_append r y st =
     (case list_at st r of
        None \<Rightarrow> (Inl DanglingRef, st)
      | Some xs \<Rightarrow> (Inr (), st\<lparr>list_at := (list_at st)(r \<mapsto> xs @ [y])\<rparr>))"

text \<open>\<open>resume_data.get(k)\<close> and \<open>self.k\<close>\<close>

definition get_data :: "(resume_data \<Rightarrow> 'a) \<Rightarrow> 'a prog" where
  "get_data field st = (Inr (field (data_obj st)), st)"

definition get_self :: "(scorer_obj \<Rightarrow> nat) \<Rightarrow> nat prog" where
  "get_self attr st = (Inr (attr (self_obj st)), st)"

text \<open>\<open>for x in xs: body\<close>\<close>

fun for_each :: "'a list \<Rightarrow> ('a \<Rightarrow> unit prog) \<Rightarrow> unit prog" where
  "for_each [] body = return_m ()"
| "for_each (x # xs) body = bind_m (body x) (\<lambda>u. for_each xs body)"

text \<open>\<open>_get_all_text\<close>\<close>

definition get_all_text_m :: "string prog" where
  "get_all_text_m =
     bind_m (new_list []) (\<lambda>text_parts.
     bind_m (get_data personal_info) (\<lambda>p.
     bind_m (list_extend text_parts (truthy_values (get_default [] p))) (\<lambda>u.
     bind_m (get_data summary) (\<lambda>s.
     bind_m (if truthy s
             then bind_m (lift_e (subscript ''summary'' s)) (\<lambda>v. list_append text_parts v)
             else return_m ()) (\<lambda>u.
     bind_m (get_data education) (\<lambda>ed.
     bind_m (for_each (get_default [] ed)
               (\<lambda>edu. list_extend text_parts (truthy_values edu))) (\<lambda>u.
     bind_m (get_data experience) (\<lambda>ex.
     bind_m (for_each (get_default [] ex)
               (\<lambda>exp. list_extend text_parts (truthy_values exp))) (\<lambda>u.
     bind_m (get_data skills) (\<lambda>sk.
     bind_m (case get_default (SkillsDict []) sk of
               SkillsDict d \<Rightarrow> list_extend text_parts (truthy_values d)
             | SkillsStr v \<Rightarrow> list_append text_parts v) (\<lambda>u.
     bind_m (get_data projects) (\<lambda>pr.
     bind_m (for_each (get_default [] pr)
               (\<lambda>proj. list_extend text_parts (truthy_values proj))) (\<lambda>u.
     bind_m (list_read text_parts) (\<lambda>parts.
     return_m (join '' '' parts)))))))))))))))"

text \<open>
  \<open>_score_format_structure\<close>, \<open>_score_content_quality\<close> and \<open>_score_completeness\<close>
  read the record and bind integers; they create and change no object.
\<close>

definition score_format_structure_m :: "int prog" where
  "score_format_structure_m = get_data score_format_structure"

definition score_content_quality_m :: "int prog" where
  "score_content_quality_m = get_data score_content_quality"

definition score_completeness_m :: "int prog" where
  "score_completeness_m = bind_m (get_data score_completeness) lift_e"

text \<open>\<open>_score_keywords\<close>\<close>

definition score_keywords_m :: "rat prog" where
  "score_keywords_m =
     bind_m get_all_text_m (\<lambda>t.
     bind_m (get_self technical_keywords_at) (\<lambda>a1.
     bind_m (list_read a1) (\<lambda>technical.
     bind_m (get_self action_verbs_at) (\<lambda>a2.
     bind_m (list_read a2) (\<lambda>verbs.
     bind_m (get_self soft_skills_at) (\<lambda>a3.
     bind_m (list_read a3) (\<lambda>soft.
       let all_text = py_lower t;
           tech_count = keyword_count technical all_text;
           tech_score = min ((of_nat tech_count / 10) * 100) (100 :: rat);
           action_count = keyword_count verbs all_text;
           action_score = min ((of_nat action_count / 8) * 100) (100 :: rat);
           soft_count = keyword_count soft all_text;
           soft_score = min ((of_nat soft_count / 5) * 100) (100 :: rat)
       in return_m (tech_score * (5 / 10) + action_score * (3 / 10)
                    + soft_score * (2 / 10)))))))))"

text \<open>\<open>_score_quantifiable_results\<close>: \<open>numbers\<close> is a list object, extended twice.\<close>

definition score_quantifiable_results_m :: "int prog" where
  "score_quantifiable_results_m =
     bind_m get_all_text_m (\<lambda>all_text.
     bind_m (new_list (re_findall False (number_patterns ! 0) all_text)) (\<lambda>numbers.
     bind_m (list_extend numbers (re_findall False (number_patterns ! 1) all_text)) (\<lambda>u.
     bind_m (list_extend numbers (re_findall False (number_patterns ! 2) all_text)) (\<lambda>u.
     bind_m (list_read numbers) (\<lambda>found.
       let achievements =
             sum_list (map (\<lambda>p. length (re_findall False p (py_lower all_text)))
                           achievement_patterns);
           total_metrics = length found + achievements
       in return_m (if 10 \<le> total_metrics then 100
                    else if 7 \<le> total_metrics then 85
                    else if 5 \<le> total_metrics then 70
                    else if 3 \<le> total_metrics then 50
                    else if 1 \<le> total_metrics then 30
                    else 0))))))"

text \<open>The messages of \<open>_generate_feedback\<close>, in the order of the source.\<close>

definition feedback_messages :: "string list" where
  "feedback_messages =
     [[CHR 0xC3, CHR 0xA2, CHR 0xC5, CHR 0xA1, CHR 0xC2, CHR 0xA0, CHR 0xC3, CHR 0xAF,
       CHR 0xC2, CHR 0xB8]
      @ '' Consider adding more contact information (email, phone, LinkedIn)'',
      [CHR 0xC3, CHR 0xB0, CHR 0xC5, CHR 0xB8, CHR 0xE2, CHR 0x80, CHR 0x9C]
      @ '' Add more relevant technical keywords and action verbs to improve ATS visibility'',
      [CHR 0xC3, CHR 0xB0, CHR 0xC5, CHR 0xB8, CHR 0xE2, CHR 0x80, CHR 0x99, CHR 0xC2,
       CHR 0xA1]
      @ '' Use strong action verbs like 'achieved', 'implemented', 'led', 'optimized''
      @ [CHR 0x27],
      [CHR 0xC3, CHR 0xA2, CHR 0xC5, CHR 0x93, CHR 0xC3, CHR 0xAF, CHR 0xC2, CHR 0xB8]
      @ '' Expand your experience descriptions with more details and context'',
      [CHR 0xC3, CHR 0xB0, CHR 0xC5, CHR 0xB8, CHR 0xC5, CHR 0xBD, CHR 0xC2, CHR 0xAF]
      @ '' Consider adding a professional summary (30-100 words)'',
      [CHR 0xC3, CHR 0xB0, CHR 0xC5, CHR 0xB8, CHR 0xE2, CHR 0x80, CHR 0x9C,
       CHR 0xE2, CHR 0x80, CHR 0xB9]
      @ '' Consider adding: '',
      [CHR 0xC3, CHR 0xB0, CHR 0xC5, CHR 0xB8, CHR 0xE2, CHR 0x80, CHR 0x9C, CHR 0xC5,
       CHR 0xA0]
      @ '' Add more quantifiable achievements (e.g., 'Increased efficiency by 30%', 'Managed team of 5')'',
      [CHR 0xC3, CHR 0xB0, CHR 0xC5, CHR 0xB8, CHR 0xE2, CHR 0x80, CHR 0x99, CHR 0xC2,
       CHR 0xAF]
      @ '' Use numbers, percentages, and metrics to demonstrate impact'',
      [CHR 0xC3, CHR 0xA2, CHR 0xC5, CHR 0x93, CHR 0xC2, CHR 0xA8]
      @ '' Great job! Your resume is well-structured and ATS-friendly'',
      [CHR 0xC3, CHR 0xB0, CHR 0xC5, CHR 0xB8, CHR 0xC5, CHR 0xBD, CHR 0xE2, CHR 0x80,
       CHR 0xB0]
      @ '' Excellent use of quantifiable achievements!'',
      [CHR 0xC3, CHR 0xA2, CHR 0xC5, CHR 0x93, CHR 0xE2, CHR 0x80, CHR 0xA6]
      @ '' Your resume looks great!'']"

text \<open>
  \<open>_generate_feedback\<close>: \<open>feedback\<close> and \<open>missing_sections\<close> are list objects. The
  value returned is the contents of \<open>feedback\<close>, or the one default message.
\<close>

definition generate_feedback_m :: "scores \<Rightarrow> string list prog" where
  "generate_feedback_m sc =
     bind_m (new_list []) (\<lambda>feedback.
     bind_m (if format_structure sc < 70
             then list_append feedback (feedback_messages ! 0)
             else return_m ()) (\<lambda>u.
     bind_m (if keyword_optimization sc < 70
             then bind_m (list_append feedback (feedback_messages ! 1))
                    (\<lambda>u. list_append feedback (feedback_messages ! 2))
             else return_m ()) (\<lambda>u.
     bind_m (if content_quality sc < 70
             then bind_m (list_append feedback (feedback_messages ! 3))
                    (\<lambda>u. list_append feedback (feedback_messages ! 4))
             else return_m ()) (\<lambda>u.
     bind_m (if completeness sc < 80
             then bind_m (new_list []) (\<lambda>missing_sections.
                  bind_m (get_data summary) (\<lambda>s.
                  bind_m (if \<not> truthy s
                          then list_append missing_sections ''Professional Summary''
                          else return_m ()) (\<lambda>u.
                  bind_m (get_data projects) (\<lambda>p.
                  bind_m (if \<not> truthy p
                          then list_append missing_sections ''Projects''
                          else return_m ()) (\<lambda>u.
                  bind_m (list_read missing_sections) (\<lambda>missing.
                    if missing \<noteq> []
                    then list_append feedback (feedback_messages ! 5 @ join '', '' missing)
                    else return_m ()))))))
             else return_m ()) (\<lambda>u.
     bind_m (if quantifiable_results sc < 60
             then bind_m (list_append feedback (feedback_messages ! 6))
                    (\<lambda>u. list_append feedback (feedback_messages ! 7))
             else return_m ()) (\<lambda>u.
     bind_m (if 70 \<le> format_structure sc \<and> 70 \<le> keyword_optimization sc
                \<and> 70 \<le> content_quality sc \<and> 70 \<le> completeness sc
                \<and> 70 \<le> quantifiable_results sc
             then list_append feedback (feedback_messages ! 8)
             else return_m ()) (\<lambda>u.
     bind_m (if 80 \<le> quantifiable_results sc
             then list_append feedback (feedback_messages ! 9)
             else return_m ()) (\<lambda>u.
     bind_m (list_read feedback) (\<lambda>result.
     return_m (if result \<noteq> [] then result else [feedback_messages ! 10]))))))))))"

text \<open>\<open>calculate_score\<close>\<close>

definition calculate_score_m :: "(int \<times> string list) prog" where
  "calculate_score_m =
     bind_m score_format_structure_m (\<lambda>fs.
     bind_m score_keywords_m (\<lambda>kw.
     bind_m score_content_quality_m (\<lambda>cq.
     bind_m score_completeness_m (\<lambda>cp.
     bind_m score_quantifiable_results_m (\<lambda>qr.
       let sc = \<lparr>format_structure = fs, keyword_optimization = kw, content_quality = cq,
                 completeness = cp, quantifiable_results = qr\<rparr>
       in bind_m (generate_feedback_m sc) (\<lambda>feedback.
          return_m (py_round (total_score sc), feedback)))))))"

text \<open>
  The scorer object is in order: its three keyword lists exist. \<open>scorer_of\<close> reads
  them. A store \<open>extends\<close> another when the scorer, the record and every list that
  existed are as they were; lists may have been added.
\<close>

definition wf_store :: "store \<Rightarrow> bool" where
  "wf_store st =
     (technical_keywords_at (self_obj st) < next_ref st
      \<and> action_verbs_at (self_obj st) < next_ref st
      \<and> soft_skills_at (self_obj st) < next_ref st
      \<and> list_at st (technical_keywords_at (self_obj st)) \<noteq> None
      \<and> list_at st (action_verbs_at (self_obj st)) \<noteq> None
      \<and> list_at st (soft_skills_at (self_obj st)) \<noteq> None)"

definition scorer_of :: "store \<Rightarrow> scorer" where
  "scorer_of st =
     \<lparr>technical_keywords = get_default [] (list_at st (technical_keywords_at (self_obj st))),
      action_verbs = get_default [] (list_at st (action_verbs_at (self_obj st))),
      soft_skills = get_default [] (list_at st (soft_skills_at (self_obj st)))\<rparr>"

definition extends :: "store \<Rightarrow> store \<Rightarrow> bool" where
  "extends st st' =
     (self_obj st' = self_obj st \<and> data_obj st' = data_obj st
      \<and> next_ref st \<le> next_ref st'
      \<and> (\<forall>r < next_ref st. list_at st' r = list_at st r))"

text \<open>As \<open>extends\<close>, but the list at the address \<open>r\<close> may have changed.\<close>

definition keeps :: "nat \<Rightarrow> store \<Rightarrow> store \<Rightarrow> bool" where
  "keeps r st st' =
     (self_obj st' = self_obj st \<and> data_obj st' = data_obj st
      \<and> next_ref st \<le> next_ref st'
      \<and> (\<forall>q < next_ref st. q \<noteq> r \<longrightarrow> list_at st' q = list_at st q))"

text \<open>
  A store just after \<open>ATSScorer()\<close>: the three keyword lists at the addresses 0, 1
  and 2 are the only objects.
\<close>

definition initial_store :: "resume_data \<Rightarrow> store" where
  "initial_store r =
     \<lparr>self_obj = \<lparr>technical_keywords_at = 0, action_verbs_at = 1, soft_skills_at = 2\<rparr>,
      data_obj = r,
      list_at = [0 \<mapsto> technical_keywords ATSScorer, 1 \<mapsto> action_verbs ATSScorer,
               2 \<mapsto> soft_skills ATSScorer],
      next_ref = 3\<rparr>"

text \<open>The score alone.\<close>

definition final_score :: "scorer \<Rightarrow> resume_data \<Rightarrow> py_error + int" where
  "final_score self r = bind_e (calculate_score self r) (\<lambda>(score, feedback). Inr score)"

subsection \<open>The rounding rules named by the specification\<close>

text \<open>The weighted sum of the five sub-scores, with the weights 0.20, 0.25, 0.20, 0.20, 0.15.\<close>

definition weighted_sum :: "scores \<Rightarrow> rat" where
  "weighted_sum sc =
     (1 / 5) * of_int (format_structure sc)
     + (1 / 4) * keyword_optimization sc
     + (1 / 5) * of_int (content_quality sc)
     + (1 / 5) * of_int (completeness sc)
     + (3 / 20) * of_int (quantifiable_results sc)"

text \<open>Round half up: a fractional part of exactly one half goes to the next integer.\<close>

definition round_half_up :: "rat \<Rightarrow> int" where
  "round_half_up x = \<lfloor>x + 1 / 2\<rfloor>"

definition round_half_up_score :: "scorer \<Rightarrow> resume_data \<Rightarrow> py_error + int" where
  "round_half_up_score self r =
     bind_e (sub_scores self r) (\<lambda>sc. Inr (round_half_up (weighted_sum sc)))"

text \<open>Round half to even: \<open>n\<close> is the nearest integer to \<open>x\<close>, and the even one of two.\<close>

definition nearest_ties_even :: "rat \<Rightarrow> int \<Rightarrow> bool" where
  "nearest_ties_even x n =
     (\<bar>of_int n - x\<bar> < 1 / 2 \<or> (\<bar>of_int n - x\<bar> = 1 / 2 \<and> even n))"

section \<open>The resume parser\<close>

text \<open>\<open>d[k] = v\<close>: the value is replaced in place, a new key goes to the end.\<close>

fun dict_set :: "dict \<Rightarrow> string \<Rightarrow> string \<Rightarrow> dict" where
  "dict_set [] k v = [(k, v)]"
| "dict_set ((k', v') # d) k v = (if k' = k then (k, v) # d else (k', v') # dict_set d k v)"

text \<open>\<open>d.get(k, '')\<close>\<close>

definition dict_get :: "dict \<Rightarrow> string \<Rightarrow> string" where
  "dict_get d k = (case map_of d k of None \<Rightarrow> [] | Some v \<Rightarrow> v)"

text \<open>\<open>xs[0] if xs else d\<close>, and \<open>next(iter(xs), d)\<close>\<close>

definition first_or :: "'a \<Rightarrow> 'a list \<Rightarrow> 'a" where
  "first_or d xs = (case xs of [] \<Rightarrow> d | x # _ \<Rightarrow> x)"

text \<open>A fold whose step may raise: the first error ends the loop.\<close>

fun fold_e :: "('s \<Rightarrow> 'a \<Rightarrow> 'e + 's) \<Rightarrow> 's \<Rightarrow> 'a list \<Rightarrow> 'e + 's" where
  "fold_e f st [] = Inr st"
| "fold_e f st (x # xs) = bind_e (f st x) (\<lambda>st'. fold_e f st' xs)"

subsection \<open>Personal information\<close>

definition email_pattern :: rx where
  "email_pattern =
     seqs [WordB,
           Rep (Any_of (upper_letters @ lower_letters @ digit_chars @ ''._%+-'')) 1 None,
           Str ''@'',
           Rep (Any_of (upper_letters @ lower_letters @ digit_chars @ ''.-'')) 1 None,
           Str ''.'',
           Rep (Any_of (upper_letters @ ''|'' @ lower_letters)) 2 None,
           WordB]"

definition phone_pattern :: rx where
  "phone_pattern =
     seqs [Opt (Cls (Any_of ''+('')),
           Cls (Any_of ''123456789''),
           Rep (Any_of (digit_chars @ '' .-()'')) 8 None,
           Cls digit]"

definition url_pattern :: rx where
  "url_pattern =
     seqs [Str ''http'', Opt (Str ''s''), Str ''://'', Opt (Str ''www.''),
           Rep (Any_of (''-'' @ lower_letters @ upper_letters @ digit_chars @ ''@:%._+~#=''))
               1 (Some 256),
           Str ''.'',
           Rep (Any_of (lower_letters @ upper_letters @ digit_chars @ ''()'')) 1 (Some 6),
           WordB,
           Rep (Any_of (''-'' @ lower_letters @ upper_letters @ digit_chars
                        @ ''()@:%_+.~#?&/=''))
               0 None]"

text \<open>\<open>_extract_personal_info\<close>\<close>

definition extract_personal_info :: "string \<Rightarrow> dict" where
  "extract_personal_info text =
     (let emails = re_findall False email_pattern text;
          phones = re_findall False phone_pattern text;
          lines = stripped_lines text;
          urls = re_findall False url_pattern text;
          linkedin = first_or [] (filter (\<lambda>url. py_in ''linkedin'' (py_lower url)) urls);
          github = first_or [] (filter (\<lambda>url. py_in ''github'' (py_lower url)) urls);
          portfolio = first_or [] (filter (\<lambda>url. url \<notin> set [linkedin, github]) urls)
      in [(''email'', first_or [] emails),
          (''phone'', first_or [] phones),
          (''name'', first_or [] lines),
          (''linkedin'', linkedin),
          (''github'', github),
          (''portfolio'', portfolio)])"

subsection \<open>Sections\<close>

definition section_keywords :: "(string \<times> string list) list" where
  "section_keywords =
     [(''summary'', [''summary'', ''profile'', ''objective'', ''about'']),
      (''education'', [''education'', ''academic'', ''qualification'']),
      (''experience'',
         [''experience'', ''employment'', ''work history'', ''professional experience'']),
      (''skills'', [''skills'', ''technical skills'', ''competencies'']),
      (''projects'', [''projects'', ''portfolio'']),
      (''certifications'', [''certifications'', ''certificates'', ''licenses''])]"

text \<open>
  The section whose header a line is: the first entry of \<open>section_keywords\<close> with a
  keyword inside the lower-cased, stripped line.
\<close>

definition header_of :: "string \<Rightarrow> string option" where
  "header_of line =
     (let line_lower = py_strip (py_lower line)
      in map_option fst
           (find (\<lambda>(section, keywords). list_ex (\<lambda>keyword. py_in keyword line_lower) keywords)
                 section_keywords))"

type_synonym sect_state = "(string \<rightharpoonup> string) \<times> string option \<times> string list"

text \<open>\<open>if current_section and section_content: sections[current_section] = ...\<close>\<close>

definition save_section :: "(string \<rightharpoonup> string) \<Rightarrow> string option \<Rightarrow> string list \<Rightarrow> (string \<rightharpoonup> string)" where
  "save_section sections current_section section_content =
     (case current_section of
        None \<Rightarrow> sections
      | Some section \<Rightarrow>
          if section \<noteq> [] \<and> section_content \<noteq> []
          then sections(section \<mapsto> join [nl] section_content)
          else sections)"

fun section_step :: "sect_state \<Rightarrow> string \<Rightarrow> sect_state" where
  "section_step (sections, current_section, section_content) line =
     (case header_of line of
        Some section \<Rightarrow>
          (save_section sections current_section section_content, Some section, [])
      | None \<Rightarrow>
          (sections, current_section,
           if truthy current_section then section_content @ [line] else section_content))"

definition scan_sections :: "string list \<Rightarrow> sect_state" where
  "scan_sections lines = foldl section_step (Map.empty, None, []) lines"

text \<open>\<open>_split_into_sections\<close>\<close>

definition split_into_sections :: "string \<Rightarrow> (string \<rightharpoonup> string)" where
  "split_into_sections text =
     (case scan_sections (split_on nl text) of
        (sections, current_section, section_content) \<Rightarrow>
          save_section sections current_section section_content)"

subsection \<open>What an entry of the section mapping stands for\<close>

text \<open>
  The value \<open>v\<close> of section \<open>S\<close> was captured from the lines: a header line of \<open>S\<close>,
  then the lines of \<open>body\<close>, at least one and none of them a header, joined into
  \<open>v\<close>, then a header line or the end of the lines.
\<close>

definition captured_block :: "string list \<Rightarrow> string \<Rightarrow> string \<Rightarrow> bool" where
  "captured_block lines S v =
     (\<exists>pre h body post.
        lines = pre @ [h] @ body @ post
        \<and> header_of h = Some S
        \<and> body \<noteq> []
        \<and> list_all (\<lambda>x. header_of x = None) body
        \<and> (case post of [] \<Rightarrow> True | l # _ \<Rightarrow> header_of l \<noteq> None)
        \<and> v = join [nl] body)"

text \<open>Every header line of \<open>S\<close> is the last line or has a header line next.\<close>

definition headers_without_body :: "string list \<Rightarrow> string \<Rightarrow> bool" where
  "headers_without_body lines S =
     (\<forall>pre h rest.
        lines = pre @ h # rest \<and> header_of h = Some S
        \<longrightarrow> (case rest of [] \<Rightarrow> True | l # _ \<Rightarrow> header_of l \<noteq> None))"

text \<open>
  The state of the scan after \<open>lines\<close>: a saved entry is a block closed by a header
  line, and the section in progress has collected the lines since its header.
\<close>

definition closed_block :: "string list \<Rightarrow> string \<Rightarrow> string \<Rightarrow> bool" where
  "closed_block lines S v =
     (\<exists>pre h body l post.
        lines = pre @ [h] @ body @ l # post
        \<and> header_of h = Some S
        \<and> body \<noteq> []
        \<and> list_all (\<lambda>x. header_of x = None) body
        \<and> header_of l \<noteq> None
        \<and> v = join [nl] body)"

definition open_block :: "string list \<Rightarrow> string \<Rightarrow> string list \<Rightarrow> bool" where
  "open_block lines S section_content =
     (\<exists>pre h.
        lines = pre @ [h] @ section_content
        \<and> header_of h = Some S
        \<and> list_all (\<lambda>x. header_of x = None) section_content)"

fun sections_inv :: "string list \<Rightarrow> sect_state \<Rightarrow> bool" where
  "sections_inv lines (sections, current_section, section_content) =
     ((\<forall>S v. sections S = Some v \<longrightarrow> closed_block lines S v)
      \<and> (case current_section of
            None \<Rightarrow>
              section_content = [] \<and> sections = Map.empty
              \<and> list_all (\<lambda>x. header_of x = None) lines
          | Some S \<Rightarrow> S \<noteq> [] \<and> open_block lines S section_content))"

subsection \<open>Summary\<close>

text \<open>\<open>_extract_summary\<close>\<close>

definition extract_summary :: "string \<Rightarrow> string" where
  "extract_summary text =
     (if text = [] then []
      else (let sentences = split_on (CHR ''.'') (py_strip text)
            in py_strip (join ''. '' (take 3 sentences)) @ ''.''))"

subsection \<open>Education\<close>

definition degree_patterns :: "rx list" where
  "degree_patterns =
     [Seq (Grp (alts [Str ''Bachelor'', Str ''Master'',
                      seqs [Str ''Ph'', Opt (Str ''.''), Str ''D''],
                      seqs [Str ''B'', Opt (Str ''.''), Str ''S'', Opt (Str ''.'')],
                      seqs [Str ''M'', Opt (Str ''.''), Str ''S'', Opt (Str ''.'')],
                      seqs [Str ''B'', Opt (Str ''.''), Str ''A'', Opt (Str ''.'')],
                      seqs [Str ''M'', Opt (Str ''.''), Str ''A'', Opt (Str ''.'')]]))
          (Rep dot 0 None),
      Grp (alts [Str ''B.Tech'', Str ''M.Tech'', Str ''B.E.'', Str ''M.E.''])]"

definition year_pattern :: rx where
  "year_pattern = Seq (Grp (Alt (Str ''19'') (Str ''20''))) (Rep digit 2 (Some 2))"

definition gpa_pattern :: rx where
  "gpa_pattern =
     seqs [Grp (seqs [Cls digit, Str ''.'', Rep digit 1 None]),
           Rep space 0 None,
           Opt (Str ''/''),
           Opt (Grp (seqs [Cls digit, Str ''.'', Rep digit 1 None]))]"

definition blank_education :: dict where
  "blank_education =
     [(''degree'', []), (''institution'', []), (''graduation_date'', []), (''gpa'', [])]"

text \<open>
  One round of the loop over the lines of \<open>_extract_education\<close>. The state is the list
  \<open>education\<close> (here \<open>education_list\<close>) and \<open>current_entry\<close>, the empty dictionary
  when no record is in progress.
\<close>

fun education_step :: "dict list \<times> dict \<Rightarrow> string \<Rightarrow> dict list \<times> dict" where
  "education_step (education_list, current_entry) line =
     (let (education_list, current_entry) =
            (if list_ex (\<lambda>pattern. re_search True pattern line \<noteq> None) degree_patterns
             then ((if current_entry \<noteq> [] then education_list @ [current_entry]
                    else education_list),
                   [(''degree'', line), (''institution'', []), (''graduation_date'', []),
                    (''gpa'', [])])
             else (education_list, current_entry));
          year_match = re_search False year_pattern line;
          current_entry =
            (case year_match of
               Some year \<Rightarrow>
                 if current_entry \<noteq> [] then dict_set current_entry ''graduation_date'' year
                 else current_entry
             | None \<Rightarrow> current_entry);
          gpa_match = re_search False gpa_pattern line;
          current_entry =
            (case gpa_match of
               Some gpa \<Rightarrow>
                 if current_entry \<noteq> [] \<and> \<not> get_truthy current_entry ''gpa''
                 then dict_set current_entry ''gpa'' gpa
                 else current_entry
             | None \<Rightarrow> current_entry);
          current_entry =
            (if current_entry \<noteq> [] \<and> re_search False year_pattern line = None
                \<and> \<not> py_in line (dict_get current_entry ''degree'')
             then (if \<not> get_truthy current_entry ''institution''
                   then dict_set current_entry ''institution'' line
                   else current_entry)
             else current_entry)
      in (education_list, current_entry))"

text \<open>\<open>_extract_education\<close>\<close>

definition extract_education :: "string \<Rightarrow> dict list" where
  "extract_education text =
     (if text = [] then []
      else (case foldl education_step ([], []) (stripped_lines text) of
              (education_list, current_entry) \<Rightarrow>
                (let education_list =
                       (if current_entry \<noteq> [] then education_list @ [current_entry]
                        else education_list)
                 in if education_list \<noteq> [] then education_list else [blank_education])))"

subsection \<open>Experience\<close>

definition month_names :: "string list" where
  "month_names =
     [''Jan'', ''Feb'', ''Mar'', ''Apr'', ''May'', ''Jun'', ''Jul'', ''Aug'', ''Sep'', ''Oct'',
      ''Nov'', ''Dec'', ''January'', ''February'', ''March'', ''April'', ''May'', ''June'',
      ''July'', ''August'', ''September'', ''October'', ''November'', ''December'']"

definition date_pattern :: rx where
  "date_pattern =
     seqs [Grp (alts (map Str month_names)), Rep space 1 None, Rep digit 4 (Some 4)]"

text \<open>
  The record in progress of \<open>_extract_experience\<close>; its \<open>responsibilities\<close> are a list
  until the end of the scan.
\<close>

record exp_entry =
  title :: string
  company :: string
  start_date :: string
  end_date :: string
  responsibilities :: "string list"

fun experience_step :: "exp_entry list \<times> exp_entry option \<Rightarrow> string \<Rightarrow> exp_entry list \<times> exp_entry option" where
  "experience_step (experience_list, current_entry) line =
     (if re_search True date_pattern line \<noteq> None then
        (let experience_list =
               (case current_entry of
                  None \<Rightarrow> experience_list
                | Some e \<Rightarrow> experience_list @ [e]);
             dates = re_findall True date_pattern line
         in (experience_list,
             Some \<lparr>title = [], company = [],
                   start_date = first_or [] dates,
                   end_date = (if 1 < length dates then dates ! 1 else ''Present''),
                   responsibilities = []\<rparr>))
      else
        (case current_entry of
           None \<Rightarrow> (experience_list, None)
         | Some e \<Rightarrow>
             if startswith line bullet \<or> startswith line ''-'' \<or> startswith line ''*''
             then (experience_list, Some (e\<lparr>responsibilities := responsibilities e @ [line]\<rparr>))
             else if title e = [] then (experience_list, Some (e\<lparr>title := line\<rparr>))
             else if company e = [] then (experience_list, Some (e\<lparr>company := line\<rparr>))
             else (experience_list, Some (e\<lparr>responsibilities := responsibilities e @ [line]\<rparr>))))"

text \<open>\<open>exp['responsibilities'] = '\n'.join(exp['responsibilities'])\<close>\<close>

definition exp_to_dict :: "exp_entry \<Rightarrow> dict" where
  "exp_to_dict e =
     [(''title'', title e), (''company'', company e), (''start_date'', start_date e),
      (''end_date'', end_date e), (''responsibilities'', join [nl] (responsibilities e))]"

definition blank_experience :: dict where
  "blank_experience =
     [(''title'', []), (''company'', []), (''start_date'', []), (''end_date'', []),
      (''responsibilities'', [])]"

text \<open>\<open>_extract_experience\<close>\<close>

definition extract_experience :: "string \<Rightarrow> dict list" where
  "extract_experience text =
     (if text = [] then []
      else (case foldl experience_step ([], None) (stripped_lines text) of
              (experience_list, current_entry) \<Rightarrow>
                (let experience_list =
                       (case current_entry of
                          None \<Rightarrow> experience_list
                        | Some e \<Rightarrow> experience_list @ [e])
                 in if experience_list \<noteq> [] then map exp_to_dict experience_list
                    else [blank_experience])))"

subsection \<open>Skills\<close>

definition bullet_prefix :: rx where
  "bullet_prefix = Seq (alts [Str bullet, Str ''-'', Str ''*'']) (Rep space 0 None)"

text \<open>\<open>re.sub\<close> of a pattern anchored at the start, with the empty replacement.\<close>

definition re_sub_start :: "rx \<Rightarrow> string \<Rightarrow> string" where
  "re_sub_start r line =
     (case rx_step False r ([], line, None) of [] \<Rightarrow> line | (seen, rest, g) # _ \<Rightarrow> rest)"

text \<open>\<open>_extract_skills\<close>\<close>

definition extract_skills :: "string \<Rightarrow> dict" where
  "extract_skills text =
     (if text = [] then [(''technical'', []), (''soft'', [])]
      else
        (let skills_list =
               map (re_sub_start bullet_prefix)
                 (filter (\<lambda>line. line \<noteq> []
                            \<and> \<not> list_ex (\<lambda>header. py_in header (py_lower line))
                                  [''skills'', ''technical'', ''soft''])
                    (map py_strip (split_on nl text)));
             all_skills = join '', '' skills_list;
             technical_keywords =
               [''python'', ''java'', ''javascript'', ''react'', ''sql'', ''aws'', ''docker'',
                ''git''];
             is_technical =
               (\<lambda>skill. list_ex (\<lambda>keyword. py_in keyword (py_lower skill)) technical_keywords);
             technical = filter is_technical skills_list;
             soft = filter (\<lambda>skill. \<not> is_technical skill) skills_list
         in [(''technical'', if technical \<noteq> [] then join '', '' technical else all_skills),
             (''soft'', if soft \<noteq> [] then join '', '' soft else [])]))"

subsection \<open>Projects\<close>

definition blank_project :: dict where
  "blank_project = [(''name'', []), (''description'', []), (''technologies'', [])]"

text \<open>
  \<open>line.isupper() or (line[0].isupper() and not line.startswith(('\<bullet>', '-', '*')))\<close>:
  \<open>line[0]\<close> raises \<open>IndexError\<close> on the empty line.
\<close>

definition new_project_line :: "string \<Rightarrow> py_error + bool" where
  "new_project_line line =
     (if py_isupper line then Inr True
      else (case line of
              [] \<Rightarrow> Inl IndexError
            | c # _ \<Rightarrow>
                Inr (chr_isupper c
                     \<and> \<not> (startswith line bullet \<or> startswith line ''-''
                          \<or> startswith line ''*''))))"

definition technologies_line :: "string \<Rightarrow> bool" where
  "technologies_line line =
     (py_in ''technologies'' (py_lower line) \<or> py_in ''tech stack'' (py_lower line))"

text \<open>
  One round of the loop over the lines of \<open>_extract_projects\<close>; \<open>current_project\<close> is
  the empty dictionary when no record is in progress.
\<close>

fun projects_step :: "dict list \<times> dict \<Rightarrow> string \<Rightarrow> py_error + (dict list \<times> dict)" where
  "projects_step (project_list, current_project) line =
     bind_e (new_project_line line) (\<lambda>new_project.
       if new_project then
         Inr ((if current_project \<noteq> [] then project_list @ [current_project] else project_list),
              [(''name'', line), (''description'', []), (''technologies'', [])])
       else if current_project \<noteq> [] then
         (if technologies_line line then
            Inr (project_list,
                 dict_set current_project ''technologies''
                   (py_strip (after_first (CHR '':'') line)))
          else
            bind_e (subscript ''description'' (map_of current_project ''description''))
              (\<lambda>description.
                 Inr (project_list,
                      dict_set current_project ''description'' (description @ line @ '' ''))))
       else Inr (project_list, current_project))"

definition scan_projects :: "string list \<Rightarrow> py_error + (dict list \<times> dict)" where
  "scan_projects lines = fold_e projects_step ([], []) lines"

text \<open>\<open>_extract_projects\<close>\<close>

definition extract_projects :: "string \<Rightarrow> py_error + dict list" where
  "extract_projects text =
     (if text = [] then Inr []
      else bind_e (scan_projects (stripped_lines text)) (\<lambda>(project_list, current_project).
             let project_list =
                   (if current_project \<noteq> [] then project_list @ [current_project] else project_list)
             in Inr (if project_list \<noteq> [] then project_list else [blank_project])))"

text \<open>
  The record in progress of \<open>_extract_projects\<close> is empty or has the key
  \<open>description\<close>, which \<open>current_project['description'] += ...\<close> reads.
\<close>

definition project_ok :: "dict \<Rightarrow> bool" where
  "project_ok current_project =
     (current_project = [] \<or> map_of current_project ''description'' \<noteq> None)"

subsection \<open>The whole parser\<close>

text \<open>\<open>_parse_text\<close>\<close>

definition parse_text :: "string \<Rightarrow> py_error + resume_data" where
  "parse_text text =
     (let personal = extract_personal_info text;
          sections = split_into_sections text;
          education_list = extract_education (get_default [] (sections ''education''));
          experience_list = extract_experience (get_default [] (sections ''experience''));
          skills_dict = extract_skills (get_default [] (sections ''skills''))
      in bind_e (extract_projects (get_default [] (sections ''projects''))) (\<lambda>project_list.
           let summary_text = extract_summary (get_default [] (sections ''summary''))
           in Inr \<lparr>personal_info = Some personal, summary = Some summary_text,
                   education = Some education_list, experience = Some experience_list,
                   skills = Some (SkillsDict skills_dict), projects = Some project_list,
                   raw_text = Some text\<rparr>))"

text \<open>
  The uploaded file, and the two libraries that open it. \<open>PyPDF2.PdfReader\<close> gives the
  text of each page and \<open>docx.Document\<close> the text of each paragraph, or they raise
  (\<open>Inl\<close> with the message). Each call of a library is recorded in the list \<open>calls\<close>.
\<close>

record uploaded_file =
  name :: string
  content :: string

record libs =
  pdf_pages :: "string \<Rightarrow> string + string list"
  docx_paragraphs :: "string \<Rightarrow> string + string list"

datatype lib_call = PdfReader string | Document string

abbreviation UnsupportedFormat :: py_error where
  "UnsupportedFormat \<equiv> ValueError ''Unsupported file format''"

text \<open>\<open>_extract_pdf_text\<close>\<close>

definition extract_pdf_text :: "libs \<Rightarrow> uploaded_file \<Rightarrow> lib_call list \<Rightarrow> (py_error + string) \<times> lib_call list" where
  "extract_pdf_text L file calls =
     (case pdf_pages L (content file) of
        Inl msg \<Rightarrow> (Inl (LibraryError msg), calls @ [PdfReader (content file)])
      | Inr pages \<Rightarrow>
          (Inr (concat (map (\<lambda>page. page @ [nl]) pages)), calls @ [PdfReader (content file)]))"

text \<open>\<open>_extract_docx_text\<close>\<close>

definition extract_docx_text :: "libs \<Rightarrow> uploaded_file \<Rightarrow> lib_call list \<Rightarrow> (py_error + string) \<times> lib_call list" where
  "extract_docx_text L file calls =
     (case docx_paragraphs L (content file) of
        Inl msg \<Rightarrow> (Inl (LibraryError msg), calls @ [Document (content file)])
      | Inr paras \<Rightarrow>
          (Inr (concat (map (\<lambda>para. para @ [nl]) paras)), calls @ [Document (content file)]))"

text \<open>\<open>uploaded_file.name.split('.')[-1].lower()\<close>\<close>

definition file_type_of :: "uploaded_file \<Rightarrow> py_error + string" where
  "file_type_of file =
     (case rev (split_on (CHR ''.'') (name file)) of
        [] \<Rightarrow> Inl IndexError
      | ext # _ \<Rightarrow> Inr (py_lower ext))"

text \<open>\<open>parse_file\<close>\<close>

definition parse_file :: "libs \<Rightarrow> uploaded_file \<Rightarrow> lib_call list \<Rightarrow> (py_error + resume_data) \<times> lib_call list" where
  "parse_file L file calls =
     (case file_type_of file of
        Inl e \<Rightarrow> (Inl e, calls)
      | Inr file_type \<Rightarrow>
          if file_type = ''pdf'' then
            (case extract_pdf_text L file calls of
               (Inl e, calls') \<Rightarrow> (Inl e, calls')
             | (Inr text, calls') \<Rightarrow> (parse_text text, calls'))
          else if file_type \<in> set [''docx'', ''doc''] then
            (case extract_docx_text L file calls of
               (Inl e, calls') \<Rightarrow> (Inl e, calls')
             | (Inr text, calls') \<Rightarrow> (parse_text text, calls'))
          else (Inl UnsupportedFormat, calls))"

section \<open>Properties of the scorer\<close>

lemma get_all_text_returns: "\<exists>t. get_all_text r = Inr t"
  by (cases "summary r") (simp_all add: get_all_text_def truthy_def subscript_def bind_e_def Let_def)

lemma score_format_structure_range:
  "0 \<le> score_format_structure r \<and> score_format_structure r \<le> 100"
  by (simp add: score_format_structure_def Let_def)

lemma keyword_part_range:
  "0 \<le> min ((of_nat n / d) * 100) (100 :: rat) \<and> min ((of_nat n / d) * 100) (100 :: rat) \<le> 100" if "0 < d"
  using that by (simp add: min_def)

lemma score_keywords_range:
  "\<exists>k. score_keywords self r = Inr k \<and> 0 \<le> k \<and> k \<le> 100"
proof -
  obtain t where t: "get_all_text r = Inr t"
    using get_all_text_returns by blast
  define a where "a = min ((of_nat (keyword_count (technical_keywords self) (py_lower t)) / 10) * 100) (100 :: rat)"
  define b where "b = min ((of_nat (keyword_count (action_verbs self) (py_lower t)) / 8) * 100) (100 :: rat)"
  define c where "c = min ((of_nat (keyword_count (soft_skills self) (py_lower t)) / 5) * 100) (100 :: rat)"
  have a: "0 \<le> a \<and> a \<le> 100" unfolding a_def by (rule keyword_part_range) simp
  have b: "0 \<le> b \<and> b \<le> 100" unfolding b_def by (rule keyword_part_range) simp
  have c: "0 \<le> c \<and> c \<le> 100" unfolding c_def by (rule keyword_part_range) simp
  have "score_keywords self r = Inr (a * (5 / 10) + b * (3 / 10) + c * (2 / 10))"
    by (simp add: score_keywords_def t bind_e_def Let_def a_def b_def c_def)
  moreover have "0 \<le> a * (5 / 10) + b * (3 / 10) + c * (2 / 10)"
    using a b c by simp
  moreover have "a * (5 / 10) + b * (3 / 10) + c * (2 / 10) \<le> 100"
    using a b c by simp
  ultimately show ?thesis by blast
qed

lemma score_content_quality_range:
  "0 \<le> score_content_quality r \<and> score_content_quality r \<le> 100"
proof -
  define words where "words = length (split_ws (get_default [] (summary r)))"
  define s1 :: int where
    "s1 = (if get_default [] (summary r) \<noteq> [] then
             (if 30 \<le> words \<and> words \<le> 100 then 0 + 25 else if 0 < words then 0 + 15 else 0)
           else 0)"
  define total_length where
    "total_length = sum_list (map (\<lambda>exp. length (split_ws
                        (get_default [] (map_of exp ''responsibilities''))))
                      (get_default [] (experience r)))"
  define s2 :: int where
    "s2 = (if get_default [] (experience r) \<noteq> [] then
             (if 100 < total_length then s1 + 30
              else if 50 < total_length then s1 + 20
              else if 0 < total_length then s1 + 10 else s1)
           else s1)"
  define s3 :: int where
    "s3 = (if get_default [] (projects r) \<noteq> []
              \<and> list_ex (\<lambda>p. get_truthy p ''description'') (get_default [] (projects r))
           then s2 + 25 else s2)"
  define s4 :: int where
    "s4 = (case get_default (SkillsDict []) (skills r) of
             SkillsDict d \<Rightarrow>
               if get_truthy d ''technical'' \<and> get_truthy d ''soft'' then s3 + 20
               else if get_truthy d ''technical'' \<or> get_truthy d ''soft'' then s3 + 10
               else s3
           | SkillsStr s \<Rightarrow> s3)"
  have eq: "score_content_quality r = min s4 100"
    unfolding score_content_quality_def Let_def s4_def s3_def s2_def s1_def words_def total_length_def
    by (rule refl)
  have 1: "0 \<le> s1" by (simp add: s1_def)
  have 2: "s1 \<le> s2" by (simp add: s2_def)
  have 3: "s2 \<le> s3" by (simp add: s3_def)
  have 4: "s3 \<le> s4" by (simp add: s4_def split: skills_val.split)
  have "0 \<le> s4" using 1 2 3 4 by linarith
  then show ?thesis by (simp add: eq)
qed

lemma get_and_len_returns: "\<exists>b. get_and_len k x = Inr b"
  by (cases x) (auto simp add: get_and_len_def truthy_def subscript_def bind_e_def)

lemma score_completeness_range:
  "\<exists>k. score_completeness r = Inr k \<and> 0 \<le> k \<and> k \<le> 100"
proof -
  obtain b1 where b1: "get_and_len ''education'' (education r) = Inr b1"
    using get_and_len_returns by blast
  obtain b2 where b2: "get_and_len ''experience'' (experience r) = Inr b2"
    using get_and_len_returns by blast
  show ?thesis
    by (simp add: score_completeness_def b1 b2 bind_e_def Let_def)
qed

lemma score_quantifiable_results_range:
  "\<exists>k. score_quantifiable_results r = Inr k \<and> 0 \<le> k \<and> k \<le> 100"
proof -
  obtain t where t: "get_all_text r = Inr t"
    using get_all_text_returns by blast
  show ?thesis
    by (simp add: score_quantifiable_results_def t bind_e_def Let_def)
qed

lemma sub_scores_range:
  "\<exists>sc. sub_scores self r = Inr sc
     \<and> 0 \<le> format_structure sc \<and> format_structure sc \<le> 100
     \<and> 0 \<le> keyword_optimization sc \<and> keyword_optimization sc \<le> 100
     \<and> 0 \<le> content_quality sc \<and> content_quality sc \<le> 100
     \<and> 0 \<le> completeness sc \<and> completeness sc \<le> 100
     \<and> 0 \<le> quantifiable_results sc \<and> quantifiable_results sc \<le> 100"
proof -
  obtain kw where kw: "score_keywords self r = Inr kw" "0 \<le> kw" "kw \<le> 100"
    using score_keywords_range by blast
  obtain cp where cp: "score_completeness r = Inr cp" "0 \<le> cp" "cp \<le> 100"
    using score_completeness_range by blast
  obtain qr where qr: "score_quantifiable_results r = Inr qr" "0 \<le> qr" "qr \<le> 100"
    using score_quantifiable_results_range by blast
  show ?thesis
    using kw cp qr score_format_structure_range [of r] score_content_quality_range [of r]
    by (simp add: sub_scores_def bind_e_def Let_def)
qed

lemma total_score_range:
  assumes "0 \<le> format_structure sc" "format_structure sc \<le> 100"
    "0 \<le> keyword_optimization sc" "keyword_optimization sc \<le> 100"
    "0 \<le> content_quality sc" "content_quality sc \<le> 100"
    "0 \<le> completeness sc" "completeness sc \<le> 100"
    "0 \<le> quantifiable_results sc" "quantifiable_results sc \<le> 100"
  shows "0 \<le> total_score sc \<and> total_score sc \<le> 100"
proof -
  have f: "(0::rat) \<le> of_int (format_structure sc)" "of_int (format_structure sc) \<le> (100::rat)"
    using assms by simp_all
  have c: "(0::rat) \<le> of_int (content_quality sc)" "of_int (content_quality sc) \<le> (100::rat)"
    using assms by simp_all
  have p: "(0::rat) \<le> of_int (completeness sc)" "of_int (completeness sc) \<le> (100::rat)"
    using assms by simp_all
  have q: "(0::rat) \<le> of_int (quantifiable_results sc)" "of_int (quantifiable_results sc) \<le> (100::rat)"
    using assms by simp_all
  show ?thesis
    unfolding total_score_def using f c p q assms(3,4) by simp
qed

lemma py_round_floor: "py_round x = \<lfloor>x\<rfloor> \<or> py_round x = \<lfloor>x\<rfloor> + 1"
  by (simp add: py_round_def Let_def)

lemma py_round_range:
  assumes "0 \<le> x" "x \<le> 100"
  shows "0 \<le> py_round x \<and> py_round x \<le> 100"
proof -
  have f0: "0 \<le> \<lfloor>x\<rfloor>" using assms(1) by simp
  have "\<lfloor>x\<rfloor> \<le> \<lfloor>100 :: rat\<rfloor>" using assms(2) by (rule floor_mono)
  then have f1: "\<lfloor>x\<rfloor> \<le> 100" by simp
  show ?thesis
  proof (cases "\<lfloor>x\<rfloor> = 100")
    case True
    have "of_int \<lfloor>x\<rfloor> \<le> x" by (rule of_int_floor_le)
    then have "x = 100" using assms(2) True by simp
    then show ?thesis by (simp add: py_round_def)
  next
    case False
    then have "\<lfloor>x\<rfloor> + 1 \<le> 100" using f1 by linarith
    then show ?thesis using f0 py_round_floor [of x] by linarith
  qed
qed

lemma calculate_score_in_range_aux:
  "\<exists>score feedback. calculate_score self r = Inr (score, feedback) \<and> 0 \<le> score \<and> score \<le> 100"
proof -
  obtain sc where sc: "sub_scores self r = Inr sc"
    and b: "0 \<le> format_structure sc" "format_structure sc \<le> 100"
      "0 \<le> keyword_optimization sc" "keyword_optimization sc \<le> 100"
      "0 \<le> content_quality sc" "content_quality sc \<le> 100"
      "0 \<le> completeness sc" "completeness sc \<le> 100"
      "0 \<le> quantifiable_results sc" "quantifiable_results sc \<le> 100"
    using sub_scores_range by blast
  have t: "0 \<le> total_score sc \<and> total_score sc \<le> 100"
    using b by (rule total_score_range)
  have "0 \<le> py_round (total_score sc) \<and> py_round (total_score sc) \<le> 100"
    using t by (simp add: py_round_range)
  then show ?thesis
    by (simp add: calculate_score_def sc bind_e_def Let_def)
qed

text \<open>
  C1: for every Resume Record (every value of \<^typ>\<open>resume_data\<close>, with any key
  absent or present) and every scorer object, \<open>calculate_score\<close> returns a pair, so it
  raises nothing, and the first component is an integer between 0 and 100.
\<close>

theorem calculate_score_in_range:
  "\<exists>score feedback. calculate_score self r = Inr (score, feedback) \<and> 0 \<le> score \<and> score \<le> 100"
  by (rule calculate_score_in_range_aux)


lemma nearest_ties_even_unique:
  assumes "nearest_ties_even x n" "nearest_ties_even x m"
  shows "n = m"
proof (rule ccontr)
  assume ne: "n \<noteq> m"
  have n: "\<bar>of_int n - x\<bar> \<le> 1 / 2" and m: "\<bar>of_int m - x\<bar> \<le> 1 / 2"
    using assms by (auto simp: nearest_ties_even_def)
  have "\<bar>(of_int n :: rat) - of_int m\<bar> \<le> 1" using n m by linarith
  then have "\<bar>of_int (n - m) :: rat\<bar> \<le> 1" by simp
  then have "\<bar>n - m\<bar> \<le> 1" by (metis of_int_abs of_int_le_1_iff)
  then have d: "n = m + 1 \<or> m = n + 1" using ne by linarith
  have "\<bar>of_int n - x\<bar> = 1 / 2 \<and> \<bar>of_int m - x\<bar> = 1 / 2"
    using d n m by (auto simp: abs_if split: if_splits)
  then have "even n \<and> even m" using assms by (auto simp: nearest_ties_even_def)
  then show False using d by auto
qed

lemma py_round_nearest: "nearest_ties_even x (py_round x)"
proof -
  define f where "f = \<lfloor>x\<rfloor>"
  define d where "d = x - of_int f"
  have d0: "0 \<le> d" unfolding d_def f_def by simp
  have d1: "d < 1" unfolding d_def f_def by linarith
  have x: "x = of_int f + d" by (simp add: d_def)
  have pr: "py_round x = (if d < 1 / 2 then f else if 1 / 2 < d then f + 1
                          else if even f then f else f + 1)"
    unfolding py_round_def Let_def d_def f_def by (rule refl)
  have e: "of_int f - x = - d" "of_int (f + 1) - x = 1 - d" by (simp_all add: d_def)
  have lo: "\<bar>- d\<bar> < 1 / 2 \<or> (\<bar>- d\<bar> = 1 / 2 \<and> even f) \<Longrightarrow> nearest_ties_even x f"
    unfolding nearest_ties_even_def e(1) by simp
  have hi: "\<bar>1 - d\<bar> < 1 / 2 \<or> (\<bar>1 - d\<bar> = 1 / 2 \<and> even (f + 1))
            \<Longrightarrow> nearest_ties_even x (f + 1)"
    unfolding nearest_ties_even_def e(2) by simp
  consider "d < 1 / 2" | "1 / 2 < d" | "d = 1 / 2" by linarith
  then show ?thesis
  proof cases
    case 1
    then have "py_round x = f" by (simp add: pr)
    moreover have "\<bar>- d\<bar> < 1 / 2" using 1 d0 by linarith
    ultimately show ?thesis using lo by simp
  next
    case 2
    then have "py_round x = f + 1" by (simp add: pr)
    moreover have "\<bar>1 - d\<bar> < 1 / 2" using 2 d1 by linarith
    ultimately show ?thesis using hi by simp
  next
    case 3
    have a: "\<bar>- d\<bar> = 1 / 2" "\<bar>1 - d\<bar> = 1 / 2" using 3 by simp_all
    show ?thesis
    proof (cases "even f")
      case True
      then have "py_round x = f" using 3 by (simp add: pr)
      then show ?thesis using lo a(1) True by simp
    next
      case False
      then have "py_round x = f + 1" using 3 by (simp add: pr)
      then show ?thesis using hi a(2) False by simp
    qed
  qed
qed

lemma py_round_off_tie:
  assumes "x - of_int \<lfloor>x\<rfloor> \<noteq> 1 / 2"
  shows "py_round x = round_half_up x"
proof -
  define f where "f = \<lfloor>x\<rfloor>"
  define d where "d = x - of_int f"
  have d0: "0 \<le> d" unfolding d_def f_def by simp
  have d1: "d < 1" unfolding d_def f_def by linarith
  have x: "x = of_int f + d" by (simp add: d_def)
  have pr: "py_round x = (if d < 1 / 2 then f else if 1 / 2 < d then f + 1
                          else if even f then f else f + 1)"
    unfolding py_round_def Let_def d_def f_def by (rule refl)
  consider "d < 1 / 2" | "1 / 2 < d" using assms unfolding d_def f_def by linarith
  then show ?thesis
  proof cases
    case 1
    have "\<lfloor>x + 1 / 2\<rfloor> = f"
      by (rule floor_unique) (use 1 d0 x in linarith)+
    then show ?thesis using 1 by (simp add: pr round_half_up_def)
  next
    case 2
    have "\<lfloor>x + 1 / 2\<rfloor> = f + 1"
      by (rule floor_unique) (use 2 d1 x in simp_all)
    then show ?thesis using 2 by (simp add: pr round_half_up_def)
  qed
qed

lemma total_score_weighted_sum: "total_score sc = weighted_sum sc"
  by (simp add: total_score_def weighted_sum_def)


text \<open>
  C4, as stated: the final score is the weighted sum rounded half up. It fails on the
  record whose only entry is the summary \<open>5%\<close>: the sub-scores are 10, 0, 15, 15 and
  30, the weighted sum is 12.5, \<open>calculate_score\<close> returns 12 and rounding half up
  gives 13.
\<close>

theorem calculate_score_half_up_counterexample:
  "final_score ATSScorer
     \<lparr>personal_info = None, summary = Some ''5%'', education = None,
        experience = None, skills = None, projects = None, raw_text = None\<rparr> = Inr 12
   \<and> round_half_up_score ATSScorer
     \<lparr>personal_info = None, summary = Some ''5%'', education = None,
        experience = None, skills = None, projects = None, raw_text = None\<rparr> = Inr 13"
  by code_simp

text \<open>
  C4, amended: for every Resume Record \<open>calculate_score\<close> returns the weighted sum of
  the five sub-scores (weights 0.20, 0.25, 0.20, 0.20, 0.15) rounded to the nearest
  integer, a weighted sum with fractional part exactly one half going to the even
  neighbour.
\<close>

theorem calculate_score_rounds_half_even:
  "\<exists>sc score feedback.
     sub_scores self r = Inr sc
     \<and> calculate_score self r = Inr (score, feedback)
     \<and> nearest_ties_even (weighted_sum sc) score"
proof -
  obtain sc where sc: "sub_scores self r = Inr sc"
    using sub_scores_range by blast
  have "calculate_score self r = Inr (py_round (total_score sc), generate_feedback sc r)"
    by (simp add: calculate_score_def sc bind_e_def)
  moreover have "nearest_ties_even (weighted_sum sc) (py_round (total_score sc))"
    using py_round_nearest [of "total_score sc"] by (simp add: total_score_weighted_sum)
  ultimately show ?thesis using sc by blast
qed

subsection \<open>The scorer on the store of objects\<close>

lemmas exec_defs = bind_m_def return_m_def lift_e_def new_list_def list_read_def
  list_extend_def list_append_def get_data_def get_self_def

lemma extends_refl: "extends st st"
  by (simp add: extends_def)

lemma extends_trans: "extends a b \<Longrightarrow> extends b c \<Longrightarrow> extends a c"
  by (auto simp: extends_def)

lemma extends_wf:
  assumes "wf_store st" "extends st st'"
  shows "wf_store st'" "scorer_of st' = scorer_of st" "data_obj st' = data_obj st"
  using assms by (auto simp: wf_store_def extends_def scorer_of_def)

lemma for_each_extend:
  "for_each ys (\<lambda>y. list_extend r (f y)) st =
     (case list_at st r of
        None \<Rightarrow> (if ys = [] then (Inr (), st) else (Inl DanglingRef, st))
      | Some xs \<Rightarrow> (Inr (), st\<lparr>list_at := (list_at st)(r \<mapsto> xs @ concat (map f ys))\<rparr>))"
proof (induction ys arbitrary: st)
  case Nil
  show ?case
    by (cases "list_at st r") (simp_all add: return_m_def map_upd_triv)
next
  case (Cons y ys)
  let ?body = "\<lambda>y. list_extend r (f y)"
  have step: "for_each (y # ys) ?body st =
              (case list_extend r (f y) st of
                 (Inl e, st') \<Rightarrow> (Inl e, st')
               | (Inr x, st') \<Rightarrow> for_each ys ?body st')"
    by (simp add: bind_m_def)
  show ?case
  proof (cases "list_at st r")
    case None
    then have "list_extend r (f y) st = (Inl DanglingRef, st)"
      by (simp add: list_extend_def)
    then show ?thesis using None step by simp
  next
    case (Some xs)
    then have "list_extend r (f y) st
               = (Inr (), st\<lparr>list_at := (list_at st)(r \<mapsto> xs @ f y)\<rparr>)"
      by (simp add: list_extend_def)
    then show ?thesis using Some step by (simp add: Cons)
  qed
qed

lemma get_all_text_m_runs:
  "\<exists>t st'. get_all_text_m st = (Inr t, st') \<and> get_all_text (data_obj st) = Inr t
            \<and> extends st st'"
proof (cases "summary (data_obj st)")
  case None
  show ?thesis
    by (cases "get_default (SkillsDict []) (skills (data_obj st))")
       (simp_all add: get_all_text_m_def get_all_text_def exec_defs for_each_extend None
          truthy_def subscript_def bind_e_def Let_def extends_def)
next
  case (Some s)
  show ?thesis
    by (cases "get_default (SkillsDict []) (skills (data_obj st))")
       (simp_all add: get_all_text_m_def get_all_text_def exec_defs for_each_extend Some
          truthy_def subscript_def bind_e_def Let_def extends_def)
qed


lemma wf_store_lists:
  assumes "wf_store st"
  obtains tk av ss where
    "list_at st (technical_keywords_at (self_obj st)) = Some tk"
    "list_at st (action_verbs_at (self_obj st)) = Some av"
    "list_at st (soft_skills_at (self_obj st)) = Some ss"
    "scorer_of st = \<lparr>technical_keywords = tk, action_verbs = av, soft_skills = ss\<rparr>"
  using assms by (auto simp: wf_store_def scorer_of_def get_default_def)

lemma score_keywords_m_runs:
  assumes "wf_store st"
  shows "\<exists>k st'. score_keywords_m st = (Inr k, st')
           \<and> score_keywords (scorer_of st) (data_obj st) = Inr k \<and> extends st st'"
proof -
  obtain t st1 where t: "get_all_text_m st = (Inr t, st1)"
    "get_all_text (data_obj st) = Inr t" "extends st st1"
    using get_all_text_m_runs by blast
  have w1: "wf_store st1" and s1: "scorer_of st1 = scorer_of st"
    using extends_wf [OF assms t(3)] by simp_all
  obtain tk av ss where l:
    "list_at st1 (technical_keywords_at (self_obj st1)) = Some tk"
    "list_at st1 (action_verbs_at (self_obj st1)) = Some av"
    "list_at st1 (soft_skills_at (self_obj st1)) = Some ss"
    "scorer_of st1 = \<lparr>technical_keywords = tk, action_verbs = av, soft_skills = ss\<rparr>"
    using wf_store_lists [OF w1] by blast
  have "\<exists>k. score_keywords_m st = (Inr k, st1)
           \<and> score_keywords (scorer_of st) (data_obj st) = Inr k"
    using l(4) s1
    by (simp add: score_keywords_m_def score_keywords_def exec_defs t(1,2) l(1-3)
          bind_e_def Let_def)
  then show ?thesis using t(3) by blast
qed

lemma score_quantifiable_results_m_runs:
  "\<exists>k st'. score_quantifiable_results_m st = (Inr k, st')
          \<and> score_quantifiable_results (data_obj st) = Inr k \<and> extends st st'"
proof -
  obtain t st1 where t: "get_all_text_m st = (Inr t, st1)"
    "get_all_text (data_obj st) = Inr t" "extends st st1"
    using get_all_text_m_runs by blast
  have "\<exists>k st'. score_quantifiable_results_m st = (Inr k, st')
          \<and> score_quantifiable_results (data_obj st) = Inr k \<and> extends st1 st'"
    by (simp add: score_quantifiable_results_m_def score_quantifiable_results_def exec_defs
          t(1,2) bind_e_def Let_def number_patterns_def extends_def)
  then show ?thesis using t(3) extends_trans by blast
qed

lemma bind_m_runs: "m st = (Inr x, st1) \<Longrightarrow> f x st1 = R \<Longrightarrow> bind_m m f st = R"
  by (simp add: bind_m_def)

lemma keeps_refl: "keeps r st st"
  by (simp add: keeps_def)

lemma keeps_trans: "keeps r a b \<Longrightarrow> keeps r b c \<Longrightarrow> keeps r a c"
  by (auto simp: keeps_def)

lemma cond_append_runs:
  assumes "list_at st r = Some xs" "r < next_ref st"
  shows "\<exists>st'. (if c then list_append r m else return_m ()) st = (Inr (), st')
           \<and> list_at st' r = Some (if c then xs @ [m] else xs)
           \<and> r < next_ref st' \<and> keeps r st st'"
  using assms by (simp add: exec_defs keeps_def)

lemma cond_append2_runs:
  assumes "list_at st r = Some xs" "r < next_ref st"
  shows "\<exists>st'. (if c then bind_m (list_append r m1) (\<lambda>u. list_append r m2)
                else return_m ()) st = (Inr (), st')
           \<and> list_at st' r = Some (if c then xs @ [m1, m2] else xs)
           \<and> r < next_ref st' \<and> keeps r st st'"
  using assms by (simp add: exec_defs keeps_def)

lemma missing_block_runs:
  assumes "list_at st r = Some xs" "r < next_ref st"
  shows "\<exists>st'.
           (if c
            then bind_m (new_list []) (\<lambda>missing_sections.
                 bind_m (get_data summary) (\<lambda>s.
                 bind_m (if \<not> truthy s
                         then list_append missing_sections ''Professional Summary''
                         else return_m ()) (\<lambda>u.
                 bind_m (get_data projects) (\<lambda>p.
                 bind_m (if \<not> truthy p
                         then list_append missing_sections ''Projects''
                         else return_m ()) (\<lambda>u.
                 bind_m (list_read missing_sections) (\<lambda>missing.
                   if missing \<noteq> []
                   then list_append r (m @ join '', '' missing)
                   else return_m ()))))))
            else return_m ()) st = (Inr (), st')
           \<and> list_at st' r
               = Some (if c then
                         (let missing_sections = [];
                              missing_sections =
                                (if \<not> truthy (summary (data_obj st))
                                 then missing_sections @ [''Professional Summary'']
                                 else missing_sections);
                              missing_sections =
                                (if \<not> truthy (projects (data_obj st))
                                 then missing_sections @ [''Projects'']
                                 else missing_sections)
                          in if missing_sections \<noteq> []
                             then xs @ [m @ join '', '' missing_sections]
                             else xs)
                       else xs)
           \<and> r < next_ref st' \<and> keeps r st st'"
proof (cases c)
  case False
  then show ?thesis using assms by (simp add: exec_defs keeps_def)
next
  case True
  have ne: "r \<noteq> next_ref st" using assms(2) by simp
  show ?thesis
    using assms ne True
    by (cases "truthy (summary (data_obj st))"; cases "truthy (projects (data_obj st))")
       (simp_all add: exec_defs keeps_def Let_def)
qed

lemma generate_feedback_m_runs:
  "\<exists>st'. generate_feedback_m sc st = (Inr (generate_feedback sc (data_obj st)), st')
         \<and> extends st st' \<and> next_ref st < next_ref st'"
proof -
  define r where "r = next_ref st"
  define d where "d = data_obj st"
  define st1 where "st1 = st\<lparr>list_at := (list_at st)(r \<mapsto> []), next_ref := Suc r\<rparr>"
  have s0: "new_list [] st = (Inr r, st1)"
    by (simp add: new_list_def st1_def r_def)
  have l0: "list_at st1 r = Some []" "r < next_ref st1" by (simp_all add: st1_def)
  have k0: "data_obj st1 = d" by (simp add: st1_def d_def)
  define f1 where "f1 = (if format_structure sc < 70 then [] @ [feedback_messages ! 0] else [])"
  obtain st2 where s1: "(if format_structure sc < 70
                         then list_append r (feedback_messages ! 0)
                         else return_m ()) st1 = (Inr (), st2)"
    and l1: "list_at st2 r = Some f1" "r < next_ref st2" and k1: "keeps r st1 st2"
    using cond_append_runs [OF l0] unfolding f1_def by blast
  define f2 where "f2 = (if keyword_optimization sc < 70
                         then f1 @ [feedback_messages ! 1, feedback_messages ! 2] else f1)"
  obtain st3 where s2: "(if keyword_optimization sc < 70
                         then bind_m (list_append r (feedback_messages ! 1))
                                (\<lambda>u. list_append r (feedback_messages ! 2))
                         else return_m ()) st2 = (Inr (), st3)"
    and l2: "list_at st3 r = Some f2" "r < next_ref st3" and k2: "keeps r st2 st3"
    using cond_append2_runs [OF l1] unfolding f2_def by blast
  define f3 where "f3 = (if content_quality sc < 70
                         then f2 @ [feedback_messages ! 3, feedback_messages ! 4] else f2)"
  obtain st4 where s3: "(if content_quality sc < 70
                         then bind_m (list_append r (feedback_messages ! 3))
                                (\<lambda>u. list_append r (feedback_messages ! 4))
                         else return_m ()) st3 = (Inr (), st4)"
    and l3: "list_at st4 r = Some f3" "r < next_ref st4" and k3: "keeps r st3 st4"
    using cond_append2_runs [OF l2] unfolding f3_def by blast
  have d4: "data_obj st4 = d"
    using k1 k2 k3 k0 by (simp add: keeps_def)
  define f4 where
    "f4 = (if completeness sc < 80 then
             (let missing_sections = [];
                  missing_sections =
                    (if \<not> truthy (summary d)
                     then missing_sections @ [''Professional Summary'']
                     else missing_sections);
                  missing_sections =
                    (if \<not> truthy (projects d)
                     then missing_sections @ [''Projects'']
                     else missing_sections)
              in if missing_sections \<noteq> []
                 then f3 @ [feedback_messages ! 5 @ join '', '' missing_sections]
                 else f3)
           else f3)"
  obtain st5 where s4:
    "(if completeness sc < 80
      then bind_m (new_list []) (\<lambda>missing_sections.
           bind_m (get_data summary) (\<lambda>s.
           bind_m (if \<not> truthy s
                   then list_append missing_sections ''Professional Summary''
                   else return_m ()) (\<lambda>u.
           bind_m (get_data projects) (\<lambda>p.
           bind_m (if \<not> truthy p
                   then list_append missing_sections ''Projects''
                   else return_m ()) (\<lambda>u.
           bind_m (list_read missing_sections) (\<lambda>missing.
             if missing \<noteq> []
             then list_append r (feedback_messages ! 5 @ join '', '' missing)
             else return_m ()))))))
      else return_m ()) st4 = (Inr (), st5)"
    and l4: "list_at st5 r = Some f4" "r < next_ref st5" and k4: "keeps r st4 st5"
    using missing_block_runs [OF l3, of "completeness sc < 80" "feedback_messages ! 5"]
    unfolding f4_def d4 by blast
  define f5 where "f5 = (if quantifiable_results sc < 60
                         then f4 @ [feedback_messages ! 6, feedback_messages ! 7] else f4)"
  obtain st6 where s5: "(if quantifiable_results sc < 60
                         then bind_m (list_append r (feedback_messages ! 6))
                                (\<lambda>u. list_append r (feedback_messages ! 7))
                         else return_m ()) st5 = (Inr (), st6)"
    and l5: "list_at st6 r = Some f5" "r < next_ref st6" and k5: "keeps r st5 st6"
    using cond_append2_runs [OF l4] unfolding f5_def by blast
  define f6 where "f6 = (if 70 \<le> format_structure sc \<and> 70 \<le> keyword_optimization sc
                            \<and> 70 \<le> content_quality sc \<and> 70 \<le> completeness sc
                            \<and> 70 \<le> quantifiable_results sc
                         then f5 @ [feedback_messages ! 8] else f5)"
  obtain st7 where s6: "(if 70 \<le> format_structure sc \<and> 70 \<le> keyword_optimization sc
                            \<and> 70 \<le> content_quality sc \<and> 70 \<le> completeness sc
                            \<and> 70 \<le> quantifiable_results sc
                         then list_append r (feedback_messages ! 8)
                         else return_m ()) st6 = (Inr (), st7)"
    and l6: "list_at st7 r = Some f6" "r < next_ref st7" and k6: "keeps r st6 st7"
    using cond_append_runs [OF l5] unfolding f6_def by blast
  define f7 where "f7 = (if 80 \<le> quantifiable_results sc
                         then f6 @ [feedback_messages ! 9] else f6)"
  obtain st8 where s7: "(if 80 \<le> quantifiable_results sc
                         then list_append r (feedback_messages ! 9)
                         else return_m ()) st7 = (Inr (), st8)"
    and l7: "list_at st8 r = Some f7" "r < next_ref st8" and k7: "keeps r st7 st8"
    using cond_append_runs [OF l6] unfolding f7_def by blast
  have s8: "list_read r st8 = (Inr f7, st8)"
    by (simp add: list_read_def l7)
  have run: "generate_feedback_m sc st
             = (Inr (if f7 \<noteq> [] then f7 else [feedback_messages ! 10]), st8)"
    unfolding generate_feedback_m_def
    apply (rule bind_m_runs, rule s0)
    apply (rule bind_m_runs, rule s1)
    apply (rule bind_m_runs, rule s2)
    apply (rule bind_m_runs, rule s3)
    apply (rule bind_m_runs, rule s4)
    apply (rule bind_m_runs, rule s5)
    apply (rule bind_m_runs, rule s6)
    apply (rule bind_m_runs, rule s7)
    apply (rule bind_m_runs, rule s8)
    apply (simp add: return_m_def)
    done
  have pure: "generate_feedback sc d = (if f7 \<noteq> [] then f7 else [feedback_messages ! 10])"
    unfolding f7_def f6_def f5_def f4_def f3_def f2_def f1_def
    by (simp add: generate_feedback_def Let_def feedback_messages_def cong del: if_weak_cong)
  have "keeps r st1 st8"
    using k1 k2 k3 k4 k5 k6 k7 keeps_trans by blast
  then have "extends st st8" "next_ref st < next_ref st8"
    by (auto simp: keeps_def extends_def st1_def r_def)
  then show ?thesis using run pure by (simp add: d_def)
qed

lemma calculate_score_m_runs:
  assumes "wf_store st"
  shows "\<exists>res st'. calculate_score_m st = (Inr res, st')
           \<and> calculate_score (scorer_of st) (data_obj st) = Inr res
           \<and> extends st st' \<and> next_ref st < next_ref st'"
proof -
  define d where "d = data_obj st"
  have fs: "score_format_structure_m st = (Inr (score_format_structure d), st)"
    by (simp add: score_format_structure_m_def get_data_def d_def)
  obtain kw st1 where kw: "score_keywords_m st = (Inr kw, st1)"
    "score_keywords (scorer_of st) d = Inr kw" "extends st st1"
    using score_keywords_m_runs [OF assms] unfolding d_def by blast
  have d1: "data_obj st1 = d" using kw(3) by (simp add: extends_def d_def)
  have cq: "score_content_quality_m st1 = (Inr (score_content_quality d), st1)"
    by (simp add: score_content_quality_m_def get_data_def d1)
  obtain cp where cp: "score_completeness d = Inr cp"
    using score_completeness_range by blast
  have cpm: "score_completeness_m st1 = (Inr cp, st1)"
    by (simp add: score_completeness_m_def exec_defs d1 cp)
  obtain qr st2 where qr: "score_quantifiable_results_m st1 = (Inr qr, st2)"
    "score_quantifiable_results d = Inr qr" "extends st1 st2"
    using score_quantifiable_results_m_runs [of st1] unfolding d1 by blast
  have d2: "data_obj st2 = d" using qr(3) d1 by (simp add: extends_def)
  define sc where "sc = \<lparr>format_structure = score_format_structure d,
                          keyword_optimization = kw,
                          content_quality = score_content_quality d,
                          completeness = cp, quantifiable_results = qr\<rparr>"
  obtain st3 where fb: "generate_feedback_m sc st2 = (Inr (generate_feedback sc d), st3)"
    "extends st2 st3" "next_ref st2 < next_ref st3"
    using generate_feedback_m_runs [of sc st2] unfolding d2 by blast
  have run: "calculate_score_m st
             = (Inr (py_round (total_score sc), generate_feedback sc d), st3)"
    unfolding calculate_score_m_def Let_def
    apply (rule bind_m_runs, rule fs)
    apply (rule bind_m_runs, rule kw(1))
    apply (rule bind_m_runs, rule cq)
    apply (rule bind_m_runs, rule cpm)
    apply (rule bind_m_runs, rule qr(1))
    apply (rule bind_m_runs, rule fb(1) [unfolded sc_def])
    apply (simp add: return_m_def sc_def)
    done
  have pure: "calculate_score (scorer_of st) d
              = Inr (py_round (total_score sc), generate_feedback sc d)"
    by (simp add: calculate_score_def sub_scores_def bind_e_def Let_def kw(2) cp qr(2) sc_def)
  have "extends st st3" using kw(3) qr(3) fb(2) extends_trans by blast
  moreover have "next_ref st < next_ref st3"
    using kw(3) qr(3) fb(3) by (simp add: extends_def)
  ultimately show ?thesis using run pure unfolding d_def by blast
qed

text \<open>
  C10: for every Resume Record and every scorer object whose keyword lists exist, a
  call of \<open>calculate_score\<close> returns a pair of a score and a list of feedback
  strings. It leaves the scorer, the record and every list that existed as they were,
  and the lists that it created stay behind in the store. A second call, on the store
  that the first call left, returns the same score and the same feedback strings in
  the same order.
\<close>

theorem calculate_score_idempotent:
  assumes "wf_store st"
  shows "\<exists>score feedback st1 st2.
           calculate_score_m st = (Inr (score, feedback), st1)
           \<and> extends st st1 \<and> next_ref st < next_ref st1
           \<and> calculate_score_m st1 = (Inr (score, feedback), st2)"
proof -
  obtain res st1 where a: "calculate_score_m st = (Inr res, st1)"
    "calculate_score (scorer_of st) (data_obj st) = Inr res" "extends st st1"
    "next_ref st < next_ref st1"
    using calculate_score_m_runs [OF assms] by blast
  have w1: "wf_store st1" "scorer_of st1 = scorer_of st" "data_obj st1 = data_obj st"
    using extends_wf [OF assms a(3)] by simp_all
  obtain res' st2 where b: "calculate_score_m st1 = (Inr res', st2)"
    "calculate_score (scorer_of st1) (data_obj st1) = Inr res'"
    using calculate_score_m_runs [OF w1(1)] by blast
  have "res' = res" using a(2) b(2) w1(2,3) by simp
  then show ?thesis using a b(1) by (cases res) auto
qed

theorem calculate_score_idempotent_witness:
  "wf_store (initial_store
     \<lparr>personal_info = None, summary = Some ''5%'', education = None,
        experience = None, skills = None, projects = None, raw_text = None\<rparr>)
   \<and> (\<exists>score feedback st1 st2.
         calculate_score_m (initial_store
           \<lparr>personal_info = None, summary = Some ''5%'', education = None,
              experience = None, skills = None, projects = None, raw_text = None\<rparr>)
           = (Inr (score, feedback), st1)
         \<and> calculate_score_m st1 = (Inr (score, feedback), st2))"
proof -
  have w: "wf_store (initial_store
     \<lparr>personal_info = None, summary = Some ''5%'', education = None,
        experience = None, skills = None, projects = None, raw_text = None\<rparr>)"
    by (simp add: wf_store_def initial_store_def)
  show ?thesis
    using calculate_score_idempotent [OF w] w by blast
qed


section \<open>Properties of the parser\<close>

lemma fold_e_append:
  "fold_e f st (xs @ ys) = bind_e (fold_e f st xs) (\<lambda>st'. fold_e f st' ys)"
  by (induction xs arbitrary: st) (auto simp: bind_e_def split: sum.splits)

lemma map_of_dict_set:
  "map_of (dict_set d k v) k' = (if k' = k then Some v else map_of d k')"
  by (induction d k v rule: dict_set.induct) auto

lemma dict_set_not_empty: "dict_set d k v \<noteq> []"
  by (cases d) (auto split: if_splits)

lemma new_project_line_returns: "line \<noteq> [] \<Longrightarrow> \<exists>b. new_project_line line = Inr b"
  by (cases line) (auto simp: new_project_line_def)

lemma projects_step_returns:
  assumes "line \<noteq> []" "project_ok cur"
  shows "\<exists>ps' cur'. projects_step (ps, cur) line = Inr (ps', cur') \<and> project_ok cur'"
proof -
  obtain b where b: "new_project_line line = Inr b"
    using assms(1) new_project_line_returns by blast
  show ?thesis
  proof (cases b)
    case True
    then show ?thesis using b by (simp add: bind_e_def project_ok_def)
  next
    case False
    show ?thesis
    proof (cases "cur = []")
      case True
      then show ?thesis using b False by (simp add: bind_e_def project_ok_def)
    next
      case ne: False
      then obtain d where d: "map_of cur ''description'' = Some d"
        using assms(2) by (auto simp: project_ok_def)
      show ?thesis
        using b False ne d
        by (simp add: bind_e_def subscript_def project_ok_def map_of_dict_set dict_set_not_empty)
    qed
  qed
qed

lemma fold_projects_step_returns:
  assumes "\<forall>line \<in> set lines. line \<noteq> []" "project_ok cur"
  shows "\<exists>st. fold_e projects_step (ps, cur) lines = Inr st"
  using assms
proof (induction lines arbitrary: ps cur)
  case Nil
  then show ?case by simp
next
  case (Cons line lines)
  then obtain ps' cur' where s: "projects_step (ps, cur) line = Inr (ps', cur')" "project_ok cur'"
    using projects_step_returns [of line cur ps] by auto
  then show ?case using Cons by (simp add: bind_e_def)
qed

lemma stripped_lines_not_empty: "\<forall>line \<in> set (stripped_lines text). line \<noteq> []"
  by (auto simp: stripped_lines_def)

lemma extract_projects_returns: "\<exists>ps. extract_projects text = Inr ps"
proof -
  have "\<exists>st. fold_e projects_step ([], []) (stripped_lines text) = Inr st"
    by (rule fold_projects_step_returns) (simp_all add: stripped_lines_not_empty project_ok_def)
  then obtain st where "scan_projects (stripped_lines text) = Inr st"
    unfolding scan_projects_def by blast
  then show ?thesis
    by (cases st) (simp add: extract_projects_def bind_e_def Let_def)
qed

lemma parse_text_returns: "\<exists>r. parse_text text = Inr r"
proof -
  obtain ps where "extract_projects (get_default [] (split_into_sections text ''projects'')) = Inr ps"
    using extract_projects_returns by blast
  then show ?thesis by (simp add: parse_text_def bind_e_def Let_def)
qed


text \<open>
  C3: on the experience text of the specification the extractor produces two records,
  the first with title \<open>Engineer\<close>, company \<open>Acme\<close>, end date \<open>Present\<close> and the two
  bullet lines joined by a newline; its \<open>start_date\<close> is \<open>Jan\<close>, not \<open>Jan 2022\<close>,
  because \<open>re.findall\<close> returns the text of the one capturing group of the pattern,
  the month name.
\<close>

theorem extract_experience_example:
  "extract_experience
     (''Jan 2022'' @ [nl] @ ''Engineer'' @ [nl] @ ''Acme'' @ [nl] @ bullet @ '' Built X'' @ [nl]
      @ bullet @ '' Shipped Y'' @ [nl] @ ''Jan 2023'' @ [nl] @ ''...'')
   = [[(''title'', ''Engineer''), (''company'', ''Acme''), (''start_date'', ''Jan''),
       (''end_date'', ''Present''),
       (''responsibilities'', bullet @ '' Built X'' @ [nl] @ bullet @ '' Shipped Y'')],
      [(''title'', ''...''), (''company'', []), (''start_date'', ''Jan''),
       (''end_date'', ''Present''), (''responsibilities'', [])]]"
  by code_simp

text \<open>
  C5: a record whose lines hold the years 2018 and 2022 on different lines is claimed
  to keep the first. The assignment to \<open>graduation_date\<close> has no test that the field is
  still unset (the assignments to \<open>gpa\<close> and \<open>institution\<close> have one), so the last
  year stays.
\<close>

theorem extract_education_two_years:
  "extract_education (''Bachelor of Science'' @ [nl] @ ''2018'' @ [nl] @ ''2022'')
   = [[(''degree'', ''Bachelor of Science''), (''institution'', []),
       (''graduation_date'', ''2022''), (''gpa'', [])]]"
  by code_simp

text \<open>
  C6, as stated: every line containing \<open>technologies\<close> that is scanned while a record is
  in progress sets the technologies of that record and starts no new record. The line
  \<open>Technologies: Python\<close> starts with an upper-case letter, so the first test of the loop
  makes it the name of a second record, and the first record keeps empty technologies.
\<close>

theorem extract_projects_technologies_counterexample:
  "extract_projects (''My Project'' @ [nl] @ ''Technologies: Python'')
   = Inr [[(''name'', ''My Project''), (''description'', []), (''technologies'', [])],
          [(''name'', ''Technologies: Python''), (''description'', []), (''technologies'', [])]]"
  by code_simp

text \<open>
  C6, amended: a line containing \<open>technologies\<close> or \<open>tech stack\<close> (in any case) that
  is scanned while a record is in progress, and that is not a new-record line (it is not
  all upper case, and it does not start with an upper-case letter unless it starts with
  a bullet prefix), sets the technologies of that record to the stripped text after the
  first colon of the line (the whole line when it has no colon); the description and
  the name of the record stay, and the list of finished records stays.
\<close>

theorem scan_projects_technologies_line:
  assumes "scan_projects pre = Inr (project_list, current_project)"
    and "current_project \<noteq> []"
    and "technologies_line line"
    and "new_project_line line = Inr False"
  shows "\<exists>cur'. scan_projects (pre @ [line]) = Inr (project_list, cur')
           \<and> map_of cur' ''technologies'' = Some (py_strip (after_first (CHR '':'') line))
           \<and> map_of cur' ''description'' = map_of current_project ''description''
           \<and> map_of cur' ''name'' = map_of current_project ''name''"
proof -
  have "scan_projects (pre @ [line])
        = Inr (project_list,
               dict_set current_project ''technologies'' (py_strip (after_first (CHR '':'') line)))"
    using assms by (simp add: scan_projects_def fold_e_append bind_e_def)
  then show ?thesis by (simp add: map_of_dict_set)
qed

theorem scan_projects_technologies_line_witness:
  "scan_projects [''My Project''] = Inr ([], [(''name'', ''My Project''), (''description'', []), (''technologies'', [])])
   \<and> technologies_line ''- tech stack: Python''
   \<and> new_project_line ''- tech stack: Python'' = Inr False
   \<and> (\<exists>cur'. scan_projects ([''My Project''] @ [''- tech stack: Python'']) = Inr ([], cur')
           \<and> map_of cur' ''technologies'' = Some ''Python''
           \<and> map_of cur' ''description'' = Some []
           \<and> map_of cur' ''name'' = Some ''My Project'')"
proof -
  have 1: "scan_projects [''My Project'']
           = Inr ([], [(''name'', ''My Project''), (''description'', []), (''technologies'', [])])"
    by code_simp
  have 2: "[(''name'', ''My Project''), (''description'', []), (''technologies'', [])] \<noteq> ([] :: dict)"
    by simp
  have 3: "technologies_line ''- tech stack: Python''" by code_simp
  have 4: "new_project_line ''- tech stack: Python'' = Inr False" by code_simp
  have 5: "py_strip '' Python'' = ''Python''" by code_simp
  show ?thesis
    using scan_projects_technologies_line [OF 1 2 3 4] 1 3 4 by (simp add: 5)
qed


lemma find_Some_in_set: "find P xs = Some x \<Longrightarrow> x \<in> set xs"
  by (induction xs) (auto split: if_splits)

lemma header_of_not_empty:
  assumes "header_of line = Some S"
  shows "S \<noteq> []"
proof -
  obtain kws where "(S, kws) \<in> set section_keywords"
    using assms find_Some_in_set by (fastforce simp: header_of_def Let_def)
  then show ?thesis by (auto simp: section_keywords_def)
qed

lemma scan_sections_snoc:
  "scan_sections (lines @ [x]) = section_step (scan_sections lines) x"
  by (simp add: scan_sections_def)

lemma closed_block_snoc:
  assumes "closed_block lines S v"
  shows "closed_block (lines @ [x]) S v"
proof -
  obtain pre h body l post where b: "lines = pre @ [h] @ body @ l # post"
    "header_of h = Some S" "body \<noteq> []" "list_all (\<lambda>x. header_of x = None) body"
    "header_of l \<noteq> None" "v = join [nl] body"
    using assms unfolding closed_block_def by blast
  have "lines @ [x] = pre @ [h] @ body @ l # (post @ [x])" using b(1) by simp
  then show ?thesis unfolding closed_block_def using b(2-6) by blast
qed

lemma open_block_close:
  assumes "open_block lines S body_lines" "body_lines \<noteq> []" "header_of x \<noteq> None"
  shows "closed_block (lines @ [x]) S (join [nl] body_lines)"
proof -
  obtain pre h where b: "lines = pre @ [h] @ body_lines" "header_of h = Some S"
    "list_all (\<lambda>x. header_of x = None) body_lines"
    using assms(1) unfolding open_block_def by blast
  have "lines @ [x] = pre @ [h] @ body_lines @ x # []" using b(1) by simp
  then show ?thesis unfolding closed_block_def using b(2,3) assms(2,3) by blast
qed

lemma open_block_snoc:
  assumes "open_block lines S body_lines" "header_of x = None"
  shows "open_block (lines @ [x]) S (body_lines @ [x])"
proof -
  obtain pre h where b: "lines = pre @ [h] @ body_lines" "header_of h = Some S"
    "list_all (\<lambda>x. header_of x = None) body_lines"
    using assms(1) unfolding open_block_def by blast
  have "lines @ [x] = pre @ [h] @ (body_lines @ [x])" using b(1) by simp
  moreover have "list_all (\<lambda>x. header_of x = None) (body_lines @ [x])"
    using b(3) assms(2) by simp
  ultimately show ?thesis unfolding open_block_def using b(2) by blast
qed

lemma open_block_new:
  assumes "header_of x = Some S"
  shows "open_block (lines @ [x]) S []"
  unfolding open_block_def
  by (intro exI [of _ lines] exI [of _ x]) (simp add: assms)

lemma save_section_closed:
  assumes "\<forall>S v. sections S = Some v \<longrightarrow> closed_block lines S v"
    and "case cur of None \<Rightarrow> True | Some S \<Rightarrow> open_block lines S body_lines"
    and "header_of x \<noteq> None"
    and "save_section sections cur body_lines S = Some v"
  shows "closed_block (lines @ [x]) S v"
proof (cases "sections S = Some v")
  case True
  then show ?thesis using assms(1) closed_block_snoc by blast
next
  case False
  then obtain S' where c: "cur = Some S'" "S' \<noteq> []" "body_lines \<noteq> []"
    and u: "(sections(S' \<mapsto> join [nl] body_lines)) S = Some v"
    using assms(4) by (auto simp: save_section_def split: option.splits if_splits)
  from u False have "S = S'" "v = join [nl] body_lines"
    by (auto split: if_splits)
  moreover have "open_block lines S' body_lines" using assms(2) c(1) by simp
  ultimately show ?thesis using open_block_close [OF _ c(3) assms(3)] by blast
qed

lemma sections_inv_step:
  assumes "sections_inv lines st"
  shows "sections_inv (lines @ [x]) (section_step st x)"
proof -
  obtain sections cur body_lines where st: "st = (sections, cur, body_lines)"
    by (cases st) auto
  have A: "\<forall>S v. sections S = Some v \<longrightarrow> closed_block lines S v"
    using assms st by simp
  have B: "case cur of
             None \<Rightarrow> body_lines = [] \<and> sections = Map.empty
                     \<and> list_all (\<lambda>x. header_of x = None) lines
           | Some S \<Rightarrow> S \<noteq> [] \<and> open_block lines S body_lines"
    using assms st by simp
  show ?thesis
  proof (cases "header_of x")
    case None
    have s: "section_step st x
             = (sections, cur, if truthy cur then body_lines @ [x] else body_lines)"
      using None st by simp
    have A': "\<forall>S v. sections S = Some v \<longrightarrow> closed_block (lines @ [x]) S v"
      using A closed_block_snoc by blast
    show ?thesis
    proof (cases cur)
      case n: None
      then show ?thesis using s A' B None by (simp add: truthy_def)
    next
      case (Some S)
      then have "S \<noteq> []" "open_block lines S body_lines" using B by simp_all
      then have "open_block (lines @ [x]) S (body_lines @ [x])"
        using open_block_snoc None by blast
      then show ?thesis using s A' Some \<open>S \<noteq> []\<close> by (simp add: truthy_def)
    qed
  next
    case (Some S')
    have s: "section_step st x = (save_section sections cur body_lines, Some S', [])"
      using Some st by simp
    have hx: "header_of x \<noteq> None" using Some by simp
    have C: "case cur of None \<Rightarrow> True | Some S \<Rightarrow> open_block lines S body_lines"
      using B by (cases cur) simp_all
    have A': "\<forall>S v. save_section sections cur body_lines S = Some v
                \<longrightarrow> closed_block (lines @ [x]) S v"
      using save_section_closed [OF A C hx] by blast
    have "S' \<noteq> []" using Some header_of_not_empty by blast
    moreover have "open_block (lines @ [x]) S' []" using Some by (rule open_block_new)
    ultimately show ?thesis using s A' by simp
  qed
qed

lemma sections_inv_scan: "sections_inv lines (scan_sections lines)"
proof (induction lines rule: rev_induct)
  case Nil
  show ?case by (simp add: scan_sections_def)
next
  case (snoc x xs)
  then show ?case using sections_inv_step by (simp add: scan_sections_snoc)
qed

lemma closed_block_captured: "closed_block lines S v \<Longrightarrow> captured_block lines S v"
proof -
  assume "closed_block lines S v"
  then obtain pre h body l post where b: "lines = pre @ [h] @ body @ l # post"
    "header_of h = Some S" "body \<noteq> []" "list_all (\<lambda>x. header_of x = None) body"
    "header_of l \<noteq> None" "v = join [nl] body"
    unfolding closed_block_def by blast
  have "case l # post of [] \<Rightarrow> True | l # _ \<Rightarrow> header_of l \<noteq> None" using b(5) by simp
  then show ?thesis unfolding captured_block_def using b(1-4,6) by blast
qed

lemma open_block_captured:
  assumes "open_block lines S body_lines" "body_lines \<noteq> []"
  shows "captured_block lines S (join [nl] body_lines)"
proof -
  obtain pre h where b: "lines = pre @ [h] @ body_lines" "header_of h = Some S"
    "list_all (\<lambda>x. header_of x = None) body_lines"
    using assms(1) unfolding open_block_def by blast
  have "lines = pre @ [h] @ body_lines @ []" using b(1) by simp
  moreover have "case ([] :: string list) of [] \<Rightarrow> True | l # _ \<Rightarrow> header_of l \<noteq> None" by simp
  ultimately show ?thesis unfolding captured_block_def using b(2,3) assms(2) by blast
qed

lemma split_into_sections_captured:
  assumes "split_into_sections text S = Some v"
  shows "captured_block (split_on nl text) S v"
proof -
  define lines where "lines = split_on nl text"
  obtain sections cur body_lines where sc: "scan_sections lines = (sections, cur, body_lines)"
    by (cases "scan_sections lines") auto
  have inv: "sections_inv lines (sections, cur, body_lines)"
    using sections_inv_scan [of lines] sc by simp
  have r: "save_section sections cur body_lines S = Some v"
    using assms sc by (simp add: split_into_sections_def lines_def)
  show ?thesis
  proof (cases "sections S = Some v")
    case True
    then have "closed_block lines S v" using inv by simp
    then show ?thesis unfolding lines_def [symmetric] by (rule closed_block_captured)
  next
    case False
    then obtain S' where c: "cur = Some S'" "S' \<noteq> []" "body_lines \<noteq> []"
      and u: "(sections(S' \<mapsto> join [nl] body_lines)) S = Some v"
      using r by (auto simp: save_section_def split: option.splits if_splits)
    from u False have e: "S = S'" "v = join [nl] body_lines" by (auto split: if_splits)
    have "open_block lines S' body_lines" using inv c(1) by simp
    then show ?thesis unfolding lines_def [symmetric] using open_block_captured c(3) e by blast
  qed
qed

lemma captured_block_header:
  assumes "captured_block lines S v"
  shows "\<not> list_all (\<lambda>x. header_of x = None) lines" and "\<not> headers_without_body lines S"
proof -
  obtain pre h body post where b: "lines = pre @ [h] @ body @ post"
    "header_of h = Some S" "body \<noteq> []" "list_all (\<lambda>x. header_of x = None) body"
    using assms unfolding captured_block_def by blast
  show "\<not> list_all (\<lambda>x. header_of x = None) lines" using b(1,2) by simp
  obtain y ys where y: "body = y # ys" using b(3) by (cases body) auto
  then have hy: "header_of y = None" using b(4) by simp
  have l: "lines = pre @ h # (y # ys @ post)" using b(1) y by simp
  show "\<not> headers_without_body lines S"
  proof
    assume "headers_without_body lines S"
    then have "case y # ys @ post of [] \<Rightarrow> True | l # _ \<Rightarrow> header_of l \<noteq> None"
      unfolding headers_without_body_def using l b(2) by blast
    then show False using hy by simp
  qed
qed

text \<open>
  C9, as stated: a header followed by the end of the input leaves its section absent
  rather than mapped to an empty string. A text that ends in a newline after its last
  header, as every text built by \<open>_extract_pdf_text\<close> and \<open>_extract_docx_text\<close> does,
  splits into the header line and one empty line; the empty line is captured, the list
  \<open>section_content\<close> is not empty, and the section is mapped to the empty string.
\<close>

theorem split_into_sections_trailing_newline_counterexample:
  "split_into_sections (''Education'' @ [nl]) ''education'' = Some []"
  by code_simp

text \<open>
  C9, amended: for every text, an entry of the mapping returned by
  \<open>_split_into_sections\<close> stands for a header line of its section followed by at least
  one captured line (the elements of \<open>text.split('\n')\<close> up to the next header line or
  the end), whose join is the value of the entry. So a text without a header line is
  mapped to the empty mapping, and a section each of whose header lines is the last
  element of \<open>text.split('\n')\<close> or has another header line next is absent from the
  mapping.
\<close>

theorem split_into_sections_entries:
  "(split_into_sections text S = Some v \<longrightarrow> captured_block (split_on nl text) S v)
   \<and> (list_all (\<lambda>x. header_of x = None) (split_on nl text)
        \<longrightarrow> split_into_sections text = Map.empty)
   \<and> (headers_without_body (split_on nl text) S \<longrightarrow> split_into_sections text S = None)"
proof (intro conjI impI)
  assume "split_into_sections text S = Some v"
  then show "captured_block (split_on nl text) S v" by (rule split_into_sections_captured)
next
  assume n: "list_all (\<lambda>x. header_of x = None) (split_on nl text)"
  show "split_into_sections text = Map.empty"
  proof (rule ext)
    fix S'
    show "split_into_sections text S' = None"
    proof (cases "split_into_sections text S'")
      case None then show ?thesis .
    next
      case (Some v')
      then show ?thesis
        using split_into_sections_captured captured_block_header(1) n by blast
    qed
  qed
next
  assume n: "headers_without_body (split_on nl text) S"
  show "split_into_sections text S = None"
  proof (cases "split_into_sections text S")
    case None then show ?thesis .
  next
    case (Some v')
    then show ?thesis
      using split_into_sections_captured captured_block_header(2) n by blast
  qed
qed


theorem split_into_sections_entries_witness:
  "split_into_sections (''Education'' @ [nl] @ ''Skills'' @ [nl] @ ''Python'') ''skills''
     = Some ''Python''
   \<and> captured_block (split_on nl (''Education'' @ [nl] @ ''Skills'' @ [nl] @ ''Python''))
         ''skills'' ''Python''
   \<and> list_all (\<lambda>x. header_of x = None) (split_on nl ''John Doe'')
   \<and> split_into_sections ''John Doe'' = Map.empty
   \<and> headers_without_body (split_on nl ''Education'') ''education''
   \<and> split_into_sections ''Education'' ''education'' = None"
proof -
  have 1: "split_into_sections (''Education'' @ [nl] @ ''Skills'' @ [nl] @ ''Python'') ''skills''
           = Some ''Python''"
    by code_simp
  have 2: "list_all (\<lambda>x. header_of x = None) (split_on nl ''John Doe'')"
    by code_simp
  have s: "split_on nl ''Education'' = [''Education'']" by code_simp
  have 3: "headers_without_body (split_on nl ''Education'') ''education''"
    unfolding s headers_without_body_def by (auto simp: Cons_eq_append_conv)
  show ?thesis
    using split_into_sections_entries
            [of "''Education'' @ [nl] @ ''Skills'' @ [nl] @ ''Python''" "''skills''" "''Python''"]
          split_into_sections_entries [of "''John Doe''"]
          split_into_sections_entries [of "''Education''" "''education''"]
          1 2 3
    by blast
qed

lemma split_on_not_empty: "split_on sep s \<noteq> []"
  by (induction s) (auto split: list.splits)

lemma file_type_of_returns: "\<exists>file_type. file_type_of file = Inr file_type"
  using split_on_not_empty [of "CHR ''.''" "name file"]
  by (cases "rev (split_on (CHR ''.'') (name file))") (auto simp: file_type_of_def)

text \<open>
  C8: \<open>parse_file\<close> raises \<open>ValueError("Unsupported file format")\<close> exactly when the
  file type, the lower-cased text after the last dot of the file name, is none of
  \<open>pdf\<close>, \<open>docx\<close> and \<open>doc\<close>; for such a file it returns the error with the list of
  library calls as it was: nothing is opened, extracted or tried again.
\<close>

theorem parse_file_unsupported:
  "\<exists>file_type. file_type_of file = Inr file_type
     \<and> ((fst (parse_file L file calls) = Inl UnsupportedFormat)
          = (file_type \<notin> set [''pdf'', ''docx'', ''doc'']))
     \<and> (file_type \<notin> set [''pdf'', ''docx'', ''doc'']
          \<longrightarrow> parse_file L file calls = (Inl UnsupportedFormat, calls))"
proof -
  obtain ft where ft: "file_type_of file = Inr ft"
    using file_type_of_returns by blast
  have ok: "\<And>t. parse_text t \<noteq> Inl UnsupportedFormat"
    using parse_text_returns by (metis sum.distinct(1))
  have pdf: "fst (extract_pdf_text L file calls) \<noteq> Inl UnsupportedFormat"
    by (simp add: extract_pdf_text_def split: sum.splits)
  have docx: "fst (extract_docx_text L file calls) \<noteq> Inl UnsupportedFormat"
    by (simp add: extract_docx_text_def split: sum.splits)
  consider "ft = ''pdf''" | "ft \<noteq> ''pdf''" "ft \<in> set [''docx'', ''doc'']"
    | "ft \<noteq> ''pdf''" "ft \<notin> set [''docx'', ''doc'']"
    by blast
  then have "((fst (parse_file L file calls) = Inl UnsupportedFormat)
               = (ft \<notin> set [''pdf'', ''docx'', ''doc'']))
             \<and> (ft \<notin> set [''pdf'', ''docx'', ''doc'']
                  \<longrightarrow> parse_file L file calls = (Inl UnsupportedFormat, calls))"
  proof cases
    case 1
    have "fst (parse_file L file calls) \<noteq> Inl UnsupportedFormat"
      using pdf ok
      by (cases "extract_pdf_text L file calls")
         (auto simp: parse_file_def ft 1 split: sum.splits)
    then show ?thesis using 1 by simp
  next
    case 2
    have "fst (parse_file L file calls) \<noteq> Inl UnsupportedFormat"
      using docx ok 2
      by (cases "extract_docx_text L file calls")
         (auto simp: parse_file_def ft split: sum.splits)
    then show ?thesis using 2 by auto
  next
    case 3
    have "parse_file L file calls = (Inl UnsupportedFormat, calls)"
      using 3 by (simp add: parse_file_def ft)
    then show ?thesis using 3 by auto
  qed
  then show ?thesis using ft by blast
qed

theorem parse_file_unsupported_witness:
  "file_type_of \<lparr>name = ''resume.TXT'', content = ''x''\<rparr> = Inr ''txt''
   \<and> ''txt'' \<notin> set [''pdf'', ''docx'', ''doc'']
   \<and> parse_file \<lparr>pdf_pages = (\<lambda>b. Inr [b]), docx_paragraphs = (\<lambda>b. Inr [b])\<rparr>
        \<lparr>name = ''resume.TXT'', content = ''x''\<rparr> []
      = (Inl UnsupportedFormat, [])"
proof -
  have 1: "file_type_of \<lparr>name = ''resume.TXT'', content = ''x''\<rparr> = Inr ''txt''"
    by code_simp
  have 2: "''txt'' \<notin> set [''pdf'', ''docx'', ''doc'']"
    by simp
  show ?thesis
    using parse_file_unsupported
            [of "\<lparr>name = ''resume.TXT'', content = ''x''\<rparr>"
                "\<lparr>pdf_pages = (\<lambda>b. Inr [b]), docx_paragraphs = (\<lambda>b. Inr [b])\<rparr>" "[]"]
          1 2
    by auto
qed



subsection \<open>Further facts about the extractors\<close>

text \<open>
  On a text that is not empty the three list extractors return a non-empty list, and
  the first GPA of a record is kept.
\<close>

lemma extract_education_not_empty: "text \<noteq> [] \<Longrightarrow> extract_education text \<noteq> []"
  by (auto simp: extract_education_def Let_def split: prod.splits)

lemma extract_experience_not_empty: "text \<noteq> [] \<Longrightarrow> extract_experience text \<noteq> []"
  by (auto simp: extract_experience_def Let_def split: prod.splits option.splits)

lemma extract_projects_not_empty:
  assumes "text \<noteq> []"
  shows "\<exists>ps. extract_projects text = Inr ps \<and> ps \<noteq> []"
proof -
  obtain ps where ps: "extract_projects text = Inr ps"
    using extract_projects_returns by blast
  then have "ps \<noteq> []"
    using assms
    by (auto simp: extract_projects_def bind_e_def Let_def split: sum.splits prod.splits if_splits)
  then show ?thesis using ps by blast
qed

lemma extract_education_two_gpas:
  "extract_education (''Bachelor of Science'' @ [nl] @ ''GPA 3.5'' @ [nl] @ ''GPA 3.9'')
   = [[(''degree'', ''Bachelor of Science''), (''institution'', ''GPA 3.5''),
       (''graduation_date'', []), (''gpa'', ''3.5'')]]"
  by code_simp

end
